theory Spec2Isabelle
  imports
    Complex_Main
    "HOL-Library.Sublist"
    "HOL-Library.Char_ord"
    "HOL-Library.List_Lexorder"
begin

section \<open>Exceptions (cdls/errors.py and the built-in ones the code meets)\<close>

text \<open>
  An exception is a value; a function that may raise returns \<open>exn + 'a\<close> with \<open>Inl\<close>
  for the exception. The first five constructors are the classes of \<^verbatim>\<open>cdls/errors.py\<close>
  (each carries its message); the others are the Python and sqlite3 exceptions that the
  modelled code can meet.
\<close>

datatype exn =
    CDLSError string
  | DatabaseError string
  | ExtractError string
  | SourceConfigurationError string
  | UnregisteredSourceError string
  | KeyError string
  | ImportError string
  | AttributeError string
  | ValueError string
  | TypeError string
  | UnboundLocalError string
  | AssertionError
  | sqlite3_OperationalError string
  | OtherException string

text \<open>\<^verbatim>\<open>isinstance(e, CDLSError)\<close>: the base class and its four subclasses.\<close>

fun is_CDLSError :: "exn \<Rightarrow> bool" where
  "is_CDLSError (CDLSError m) = True"
| "is_CDLSError (DatabaseError m) = True"
| "is_CDLSError (ExtractError m) = True"
| "is_CDLSError (SourceConfigurationError m) = True"
| "is_CDLSError (UnregisteredSourceError m) = True"
| "is_CDLSError e = False"

fun is_SourceConfigurationError :: "exn \<Rightarrow> bool" where
  "is_SourceConfigurationError (SourceConfigurationError m) = True"
| "is_SourceConfigurationError e = False"

fun is_DatabaseError :: "exn \<Rightarrow> bool" where
  "is_DatabaseError (DatabaseError m) = True"
| "is_DatabaseError e = False"

fun is_ValueError :: "exn \<Rightarrow> bool" where
  "is_ValueError (ValueError m) = True"
| "is_ValueError e = False"

fun is_TypeError :: "exn \<Rightarrow> bool" where
  "is_TypeError (TypeError m) = True"
| "is_TypeError e = False"

fun is_ImportError :: "exn \<Rightarrow> bool" where
  "is_ImportError (ImportError m) = True"
| "is_ImportError e = False"

fun is_OperationalError :: "exn \<Rightarrow> bool" where
  "is_OperationalError (sqlite3_OperationalError m) = True"
| "is_OperationalError e = False"

text \<open>\<^verbatim>\<open>str(e)\<close>: the message an exception was built with.\<close>

fun str_exn :: "exn \<Rightarrow> string" where
  "str_exn (CDLSError m) = m"
| "str_exn (DatabaseError m) = m"
| "str_exn (ExtractError m) = m"
| "str_exn (SourceConfigurationError m) = m"
| "str_exn (UnregisteredSourceError m) = m"
| "str_exn (KeyError m) = m"
| "str_exn (ImportError m) = m"
| "str_exn (AttributeError m) = m"
| "str_exn (ValueError m) = m"
| "str_exn (TypeError m) = m"
| "str_exn (UnboundLocalError m) = m"
| "str_exn AssertionError = []"
| "str_exn (sqlite3_OperationalError m) = m"
| "str_exn (OtherException m) = m"


section \<open>Strings and dictionaries\<close>

text \<open>
  \<^verbatim>\<open>str.strip()\<close> removes leading and trailing whitespace. A \<open>char\<close> is a byte, so
  the whitespace characters are the ASCII ones Python knows: tab, line feed, vertical
  tab, form feed, carriage return, the four separators 0x1C..0x1F and the space.
\<close>

definition is_space :: "char \<Rightarrow> bool" where
  "is_space c = (c \<in> set [CHR 0x09, CHR 0x0A, CHR 0x0B, CHR 0x0C, CHR 0x0D,
                           CHR 0x1C, CHR 0x1D, CHR 0x1E, CHR 0x1F, CHR 0x20])"

definition strip :: "string \<Rightarrow> string" where
  "strip s = rev (dropWhile is_space (rev (dropWhile is_space s)))"

text \<open>\<^verbatim>\<open>str.upper()\<close>, on the ASCII letters.\<close>

definition upper_char :: "char \<Rightarrow> char" where
  "upper_char c =
     (case map_of (zip ''abcdefghijklmnopqrstuvwxyz'' ''ABCDEFGHIJKLMNOPQRSTUVWXYZ'') c of
        Some u \<Rightarrow> u
      | None \<Rightarrow> c)"

definition upper :: "string \<Rightarrow> string" where
  "upper s = map upper_char s"

text \<open>A string between single quotes, as the messages of exceptions show names.\<close>

definition quoted :: "string \<Rightarrow> string" where
  "quoted s = [CHR 0x27] @ s @ [CHR 0x27]"

text \<open>
  A Python \<^verbatim>\<open>dict\<close> is an association list in insertion order (the iteration order the
  language guarantees). \<^verbatim>\<open>d[k] = v\<close> replaces the value of a key that is present, which
  keeps its position, and appends a new key at the end.
\<close>

type_synonym ('k, 'v) dict = "('k \<times> 'v) list"

fun dict_setitem :: "('k, 'v) dict \<Rightarrow> 'k \<Rightarrow> 'v \<Rightarrow> ('k, 'v) dict" where
  "dict_setitem [] k v = [(k, v)]"
| "dict_setitem ((k', v') # d) k v =
     (if k' = k then (k, v) # d else (k', v') # dict_setitem d k v)"

definition dict_get :: "('k, 'v) dict \<Rightarrow> 'k \<Rightarrow> 'v option" where
  "dict_get d k = map_of d k"

definition dict_keys :: "('k, 'v) dict \<Rightarrow> 'k list" where
  "dict_keys d = map fst d"

definition dict_values :: "('k, 'v) dict \<Rightarrow> 'v list" where
  "dict_values d = map snd d"


section \<open>Dates and load reports (cdls/datasources.py)\<close>

text \<open>
  A \<^verbatim>\<open>datetime\<close> is an instant, counted in microseconds from 0001-01-01T00:00:00, which
  is \<^verbatim>\<open>datetime.min\<close>; it is either naive (no time zone) or aware (here always UTC,
  the only zone the code attaches). Python orders two naive or two aware values by
  their instant and raises \<^verbatim>\<open>TypeError\<close> when asked to order a naive and an aware one.
\<close>

datatype datetime = Naive int | Aware int

definition datetime_min :: datetime where
  "datetime_min = Naive 0"

text \<open>\<^verbatim>\<open>b > a\<close> on datetimes.\<close>

fun datetime_gt :: "datetime \<Rightarrow> datetime \<Rightarrow> exn + bool" where
  "datetime_gt (Naive b) (Naive a) = Inr (b > a)"
| "datetime_gt (Aware b) (Aware a) = Inr (b > a)"
| "datetime_gt b a = Inl (TypeError ''can't compare offset-naive and offset-aware datetimes'')"

text \<open>\<^verbatim>\<open>max(a, b)\<close>: the first argument unless the second is greater.\<close>

definition py_max :: "datetime \<Rightarrow> datetime \<Rightarrow> exn + datetime" where
  "py_max a b = (case datetime_gt b a of
                   Inl e \<Rightarrow> Inl e
                 | Inr b_greater \<Rightarrow> Inr (if b_greater then b else a))"

record LoadReport =
  report_identifier :: string
  latest_record :: datetime
  number_processed :: int
  number_successes :: int
  successful :: bool
  time_elapsed :: real


section \<open>Data sources\<close>

type_synonym config_node = "string \<rightharpoonup> string"

text \<open>
  An instance of \<^verbatim>\<open>BaseDataSource\<close> or of a subclass. \<open>ds_type\<close> is
  \<^verbatim>\<open>type(self).__name__\<close>. \<open>ds_execute\<close> is the \<^verbatim>\<open>execute\<close> method the class
  defines: it acts on \<open>'w\<close>, which stands for everything the method can read or change
  (the warehouse, the clock, the instance's own report), and either returns a report or
  raises. \<open>ds_db\<close> and \<open>ds_logger\<close> name the injected collaborators.
\<close>

record 'w datasource =
  ds_config :: config_node
  ds_identifier :: string
  ds_description :: string
  ds_type :: string
  ds_report :: LoadReport
  ds_db :: "string option"
  ds_logger :: "string option"
  ds_execute :: "'w \<Rightarrow> (exn + LoadReport) \<times> 'w"

definition get_identifier :: "'w datasource \<Rightarrow> string" where
  "get_identifier ds = ds_identifier ds"

definition get_type :: "'w datasource \<Rightarrow> string" where
  "get_type ds = ds_type ds"

definition get_description :: "'w datasource \<Rightarrow> string" where
  "get_description ds = ds_description ds"

definition register_database_ds :: "'w datasource \<Rightarrow> string option \<Rightarrow> 'w datasource" where
  "register_database_ds ds db = ds\<lparr>ds_db := db\<rparr>"

definition register_logger_ds :: "'w datasource \<Rightarrow> string option \<Rightarrow> 'w datasource" where
  "register_logger_ds ds logger = ds\<lparr>ds_logger := logger\<rparr>"

text \<open>\<^verbatim>\<open>LoadReport.__init__(datasource)\<close>.\<close>

definition LoadReport_init :: "string \<Rightarrow> LoadReport" where
  "LoadReport_init ident =
     \<lparr>report_identifier = ident, latest_record = datetime_min, number_processed = 0,
      number_successes = 0, successful = False, time_elapsed = - 1\<rparr>"


section \<open>The registry and the orchestrator (cdls/__init__.py)\<close>

text \<open>
  The module's globals: \<^verbatim>\<open>_datasources\<close>, \<^verbatim>\<open>_db\<close> and \<^verbatim>\<open>_logger\<close>. Calls to the
  registered logger only emit log lines; the logger is an injected collaborator, taken
  to return normally, and what it writes is not part of the state.
\<close>

record 'w cdls =
  datasources :: "(string, 'w datasource) dict"
  db :: "string option"
  logger :: "string option"

text \<open>
  \<^verbatim>\<open>register_datasource\<close>. The two setters of \<^verbatim>\<open>BaseDataSource\<close> and the dictionary
  store cannot raise, so the handler of the \<^verbatim>\<open>try\<close> is never entered.
\<close>

definition register_datasource :: "'w cdls \<Rightarrow> 'w datasource \<Rightarrow> 'w cdls" where
  "register_datasource st datasource =
     (let datasource = register_logger_ds datasource (logger st);
          datasource = register_database_ds datasource (db st)
      in st\<lparr>datasources := dict_setitem (datasources st) (get_identifier datasource) datasource\<rparr>)"

text \<open>
  \<^verbatim>\<open>list_registered_sources\<close>: \<^verbatim>\<open>sorted(_datasources.items())\<close> orders the items by key,
  strings being compared lexicographically by character code; the keys of a dictionary
  differ, so the values are never compared.
\<close>

definition source_to_tuple :: "'w datasource \<Rightarrow> string \<times> string \<times> string" where
  "source_to_tuple ds = (get_identifier ds, get_type ds, get_description ds)"

definition list_registered_sources :: "'w cdls \<Rightarrow> (string \<times> string \<times> string) list" where
  "list_registered_sources st =
     map (\<lambda>(k, ds). source_to_tuple ds) (sort_key fst (datasources st))"

text \<open>
  The loop of \<^verbatim>\<open>perform_all_loads\<close> over \<^verbatim>\<open>_datasources.values()\<close>. \<open>reports\<close> is the
  list being collected. \<open>called\<close> is not in the source: it records the identifier of
  every source whose \<^verbatim>\<open>execute\<close> has been called, in call order, so that the order and
  the extent of the iteration can be stated. An exception that leaves the function is
  the result \<open>Inl\<close>, which carries no report list.
\<close>

fun perform_all_loads_loop ::
  "bool \<Rightarrow> 'w datasource list \<Rightarrow> LoadReport list \<Rightarrow> string list \<Rightarrow> 'w
     \<Rightarrow> (exn + LoadReport list) \<times> string list \<times> 'w" where
  "perform_all_loads_loop halt_on_error [] reports called w = (Inr reports, called, w)"
| "perform_all_loads_loop halt_on_error (datasource # rest) reports called w =
     (case ds_execute datasource w of
        (Inr report, w') \<Rightarrow>
          perform_all_loads_loop halt_on_error rest (reports @ [report])
            (called @ [get_identifier datasource]) w'
      | (Inl e, w') \<Rightarrow>
          if is_CDLSError e then
            (if halt_on_error then (Inl e, called @ [get_identifier datasource], w')
             else perform_all_loads_loop halt_on_error rest reports
                    (called @ [get_identifier datasource]) w')
          else (Inl e, called @ [get_identifier datasource], w'))"

definition perform_all_loads ::
  "bool \<Rightarrow> 'w cdls \<Rightarrow> 'w \<Rightarrow> (exn + LoadReport list) \<times> string list \<times> 'w" where
  "perform_all_loads halt_on_error st w =
     perform_all_loads_loop halt_on_error (dict_values (datasources st)) [] [] w"

text \<open>
  \<^verbatim>\<open>perform_load\<close>: the handler logs a domain error and raises it again, so every
  exception of \<^verbatim>\<open>execute\<close> reaches the caller.
\<close>

definition perform_load :: "'w cdls \<Rightarrow> string \<Rightarrow> 'w \<Rightarrow> (exn + LoadReport) \<times> 'w" where
  "perform_load st ident w =
     (let ident = strip ident
      in case dict_get (datasources st) ident of
           None \<Rightarrow> (Inl (UnregisteredSourceError (''Source '' @ ident @ '' is not registered'')), w)
         | Some datasource \<Rightarrow> ds_execute datasource w)"


section \<open>Construction of a source (cdls/datasources.py)\<close>

text \<open>
  Configuration values are strings, as every key the core reads holds one in a
  configuration document. \<^verbatim>\<open>_get_config_param\<close>: \<^verbatim>\<open>not value\<close> holds of \<^verbatim>\<open>None\<close> and
  of the empty string.
\<close>

definition get_config_param ::
  "config_node \<Rightarrow> string \<Rightarrow> bool \<Rightarrow> string option \<Rightarrow> exn + string option" where
  "get_config_param config key required default_value =
     (let val = (case config key of None \<Rightarrow> default_value | Some v \<Rightarrow> Some v)
      in if required \<and> (val = None \<or> val = Some [])
         then Inl (SourceConfigurationError
                     (''Required config parameter '' @ quoted key @ '' is missing''))
         else Inr val)"

text \<open>
  \<^verbatim>\<open>BaseDataSource.__init__\<close>, for the class named \<open>type_name\<close> whose \<^verbatim>\<open>execute\<close> is
  \<open>execute\<close>. A required parameter is never \<^verbatim>\<open>None\<close>, so the two branches for it are
  not reached.
\<close>

definition BaseDataSource_init ::
  "string \<Rightarrow> ('w \<Rightarrow> (exn + LoadReport) \<times> 'w) \<Rightarrow> config_node \<Rightarrow> exn + 'w datasource" where
  "BaseDataSource_init type_name execute config =
     (case get_config_param config ''id'' True None of
        Inl e \<Rightarrow> Inl e
      | Inr None \<Rightarrow> Inl (SourceConfigurationError [])
      | Inr (Some ident) \<Rightarrow>
          (case get_config_param config ''description'' True None of
             Inl e \<Rightarrow> Inl e
           | Inr None \<Rightarrow> Inl (SourceConfigurationError [])
           | Inr (Some description) \<Rightarrow>
               Inr \<lparr>ds_config = config, ds_identifier = ident, ds_description = description,
                    ds_type = type_name, ds_report = LoadReport_init ident,
                    ds_db = None, ds_logger = None, ds_execute = execute\<rparr>))"

text \<open>The class \<^verbatim>\<open>BaseDataSource\<close> itself, whose \<^verbatim>\<open>execute\<close> raises.\<close>

definition BaseDataSource_execute :: "'w \<Rightarrow> (exn + LoadReport) \<times> 'w" where
  "BaseDataSource_execute w = (Inl (CDLSError ''Not yet implemented''), w)"

definition BaseDataSource :: "config_node \<Rightarrow> exn + 'w datasource" where
  "BaseDataSource = BaseDataSource_init ''BaseDataSource'' BaseDataSource_execute"


section \<open>Registration from configuration nodes (cdls/__init__.py)\<close>

text \<open>\<^verbatim>\<open>s.rsplit(".", 1)\<close>: at most one split, at the last dot.\<close>

definition rsplit_dot :: "string \<Rightarrow> string list" where
  "rsplit_dot s =
     (if CHR ''.'' \<in> set s
      then [rev (tl (dropWhile (\<lambda>c. c \<noteq> CHR ''.'') (rev s))),
            rev (takeWhile (\<lambda>c. c \<noteq> CHR ''.'') (rev s))]
      else [s])"

text \<open>
  What the name of a module attribute can be bound to: a class that is
  \<^verbatim>\<open>BaseDataSource\<close> or a subclass of it, given by its constructor; another class; or
  a value that is not a class. A module is the table of its attributes, and \<open>modules\<close>
  is the table of the modules that can be imported.
\<close>

datatype 'w attribute =
    DataSourceClass "config_node \<Rightarrow> exn + 'w datasource"
  | OtherClass
  | NotAClass

type_synonym 'w py_module = "string \<rightharpoonup> 'w attribute"

type_synonym 'w modules = "string \<rightharpoonup> 'w py_module"

text \<open>
  \<^verbatim>\<open>importlib.import_module(name)\<close> with no package: an empty name is a
  \<^verbatim>\<open>ValueError\<close>, a relative name a \<^verbatim>\<open>TypeError\<close>, a module that is not found an
  \<^verbatim>\<open>ImportError\<close>. A module that is found is taken to import without raising.
\<close>

definition import_module :: "'w modules \<Rightarrow> string \<Rightarrow> exn + 'w py_module" where
  "import_module env name =
     (case name of
        [] \<Rightarrow> Inl (ValueError ''Empty module name'')
      | c # cs \<Rightarrow>
          if c = CHR ''.''
          then Inl (TypeError ''the 'package' argument is required to perform a relative import'')
          else (case env name of
                  None \<Rightarrow> Inl (ImportError (''No module named '' @ quoted name))
                | Some module_ref \<Rightarrow> Inr module_ref))"

text \<open>
  \<^verbatim>\<open>_get_qualified_class_ref\<close>. Unpacking the result of \<^verbatim>\<open>rsplit\<close> into two names
  raises \<^verbatim>\<open>ValueError\<close> when there is no dot. The handler of \<^verbatim>\<open>AttributeError\<close>
  evaluates \<^verbatim>\<open>str(e)\<close>, but \<^verbatim>\<open>e\<close> is a local variable of the function (bound only by
  \<^verbatim>\<open>except ImportError as e\<close>) that has no value there, so that handler raises
  \<^verbatim>\<open>UnboundLocalError\<close>, which neither outer handler catches.
\<close>

definition get_qualified_class_ref :: "'w modules \<Rightarrow> config_node \<Rightarrow> exn + 'w attribute" where
  "get_qualified_class_ref env config_node =
     (case config_node ''@QualifiedClassName'' of
        None \<Rightarrow> Inl (SourceConfigurationError ''@QualifiedClassName property is missing'')
      | Some qualified \<Rightarrow>
          (case rsplit_dot qualified of
             [module_name, class_name] \<Rightarrow>
               (case import_module env module_name of
                  Inl e \<Rightarrow>
                    if is_ImportError e then Inl (SourceConfigurationError (str_exn e)) else Inl e
                | Inr module_ref \<Rightarrow>
                    (case module_ref class_name of
                       Some class_ref \<Rightarrow> Inr class_ref
                     | None \<Rightarrow>
                         Inl (UnboundLocalError
                                ''cannot access local variable 'e' where it is not associated with a value'')))
           | _ \<Rightarrow> Inl (ValueError ''not enough values to unpack (expected 2, got 1)'')))"

text \<open>
  \<^verbatim>\<open>_register_all_datasources\<close>: the result is the exception that leaves the function,
  if any, and the registry as it is then. \<^verbatim>\<open>issubclass\<close> raises \<^verbatim>\<open>TypeError\<close> when
  its first argument is not a class; the \<^verbatim>\<open>assert\<close> raises \<^verbatim>\<open>AssertionError\<close> when it
  is a class but not a data source class. The handler logs a
  \<^verbatim>\<open>SourceConfigurationError\<close> and raises it again; other exceptions pass through.
\<close>

fun register_all_datasources ::
  "'w modules \<Rightarrow> 'w cdls \<Rightarrow> config_node list \<Rightarrow> exn option \<times> 'w cdls" where
  "register_all_datasources env st [] = (None, st)"
| "register_all_datasources env st (config_node # rest) =
     (case get_qualified_class_ref env config_node of
        Inl e \<Rightarrow> (Some e, st)
      | Inr NotAClass \<Rightarrow> (Some (TypeError ''issubclass() arg 1 must be a class''), st)
      | Inr OtherClass \<Rightarrow> (Some AssertionError, st)
      | Inr (DataSourceClass init) \<Rightarrow>
          (case init config_node of
             Inl e \<Rightarrow> (Some e, st)
           | Inr datasource \<Rightarrow>
               register_all_datasources env (register_datasource st datasource) rest))"


section \<open>The latest record date (cdls/datasources.py)\<close>

text \<open>
  The three regular expressions of \<^verbatim>\<open>_string_to_date\<close>, matched from the start of the
  string as \<^verbatim>\<open>re.match\<close> does. \<open>iso_timestamp\<close> is their common part,
  \<^verbatim>\<open>\d{4}-\d{2}-\d{2}T\d{2}:\d{2}:\d{2}\<close>, against a whole string; the first pattern asks
  for a sign and four digits after it, the second for one or more word characters, the
  third for nothing. Digits and word characters are the ASCII ones.
\<close>

datatype date_pattern = ISO8601_numeric_tz | ISO8601_named_tz | ISO8601_plain

definition is_digit :: "char \<Rightarrow> bool" where
  "is_digit c = (c \<in> set ''0123456789'')"

definition is_word :: "char \<Rightarrow> bool" where
  "is_word c = (is_digit c
     \<or> c \<in> set ''abcdefghijklmnopqrstuvwxyzABCDEFGHIJKLMNOPQRSTUVWXYZ_'')"

definition iso_timestamp :: "string \<Rightarrow> bool" where
  "iso_timestamp s =
     list_all2 (\<lambda>p c. if p = CHR ''d'' then is_digit c else c = p) ''dddd-dd-ddTdd:dd:dd'' s"

fun re_match :: "date_pattern \<Rightarrow> string \<Rightarrow> bool" where
  "re_match ISO8601_numeric_tz s =
     (iso_timestamp (take 19 s)
      \<and> (case drop 19 s of
            [sign, a, b, c, d] \<Rightarrow> sign \<in> set ''+-'' \<and> list_all is_digit [a, b, c, d]
          | _ \<Rightarrow> False))"
| "re_match ISO8601_named_tz s =
     (iso_timestamp (take 19 s) \<and> drop 19 s \<noteq> [] \<and> list_all is_word (drop 19 s))"
| "re_match ISO8601_plain s = iso_timestamp s"

text \<open>The dictionary \<^verbatim>\<open>mapping\<close> of patterns to formats, in insertion order.\<close>

definition mapping :: "(date_pattern \<times> string) list" where
  "mapping =
     [(ISO8601_numeric_tz, ''%Y-%m-%dT%H:%M:%S''),
      (ISO8601_named_tz, ''%Y-%m-%dT%H:%M:%SEDT''),
      (ISO8601_plain, ''%Y-%m-%dT%H:%M:%S'')]"

text \<open>
  \<open>time_library\<close> stands for the library calls made on a string that matched:
  \<^verbatim>\<open>time.strptime(datestring, formatting)\<close>, \<^verbatim>\<open>time.mktime\<close> and
  \<^verbatim>\<open>datetime.fromtimestamp(..., timezone.utc)\<close>. They raise, or give the instant of the
  resulting datetime, which is aware. \<^verbatim>\<open>_string_to_date\<close> goes on to the next pattern
  on a \<^verbatim>\<open>ValueError\<close> and raises \<^verbatim>\<open>CDLSError\<close> when no pattern is left.
\<close>

type_synonym time_library = "string \<Rightarrow> string \<Rightarrow> exn + int"

fun string_to_date_loop ::
  "time_library \<Rightarrow> string \<Rightarrow> (date_pattern \<times> string) list \<Rightarrow> exn + datetime" where
  "string_to_date_loop lib datestring [] =
     Inl (CDLSError (''Couldn't parse date '' @ quoted datestring))"
| "string_to_date_loop lib datestring ((pattern, formatting) # rest) =
     (if re_match pattern datestring
      then (case lib datestring formatting of
              Inr instant \<Rightarrow> Inr (Aware instant)
            | Inl e \<Rightarrow>
                if is_ValueError e then string_to_date_loop lib datestring rest else Inl e)
      else string_to_date_loop lib datestring rest)"

definition string_to_date :: "time_library \<Rightarrow> string \<Rightarrow> exn + datetime" where
  "string_to_date lib datestring =
     (let datestring = strip datestring in string_to_date_loop lib datestring mapping)"

text \<open>
  \<^verbatim>\<open>BaseDataSource._update_latest_record_date\<close>, whose argument is a string or a
  datetime; the result is the instance with its report updated, or the exception.
\<close>

datatype date_arg = DateString string | DateObject datetime

definition update_latest_record_date ::
  "time_library \<Rightarrow> 'w datasource \<Rightarrow> date_arg \<Rightarrow> exn + 'w datasource" where
  "update_latest_record_date lib self new_date =
     (case (case new_date of
              DateString s \<Rightarrow> string_to_date lib s
            | DateObject d \<Rightarrow> Inr d) of
        Inl e \<Rightarrow> Inl e
      | Inr new_date \<Rightarrow>
          (let previous_date = latest_record (ds_report self)
           in case py_max new_date previous_date of
                Inl e \<Rightarrow> Inl e
              | Inr latest \<Rightarrow>
                  Inr (self\<lparr>ds_report := (ds_report self)\<lparr>latest_record := latest\<rparr>\<rparr>)))"


section \<open>The warehouse store (cdls/db.py)\<close>

subsection \<open>Values and their JSON documents\<close>

text \<open>
  The Python values that \<^verbatim>\<open>warehouse\<close> is given: \<^verbatim>\<open>None\<close>, booleans, integers,
  strings, datetimes, lists, dictionaries, \<open>PyObject cls attrs\<close> for an instance of the
  class \<open>cls\<close> whose \<^verbatim>\<open>__dict__\<close> is \<open>attrs\<close>, and \<open>PyOpaque cls\<close> for an instance of
  a class without \<^verbatim>\<open>__dict__\<close> (\<^verbatim>\<open>bytes\<close>, \<^verbatim>\<open>set\<close>, \<^verbatim>\<open>date\<close>). A dictionary key is a
  string or \<open>KeyOther\<close>, a key that JSON does not take (a tuple); keys that are numbers
  are left out, and so are floats. The document is kept as a tree: the layout of the
  text that \<^verbatim>\<open>json.dumps\<close> writes is not modelled.
\<close>

datatype pykey = KeyStr string | KeyOther

datatype pyval =
    PyNone
  | PyBool bool
  | PyInt int
  | PyStr string
  | PyDatetime datetime
  | PyList "pyval list"
  | PyDict "(pykey \<times> pyval) list"
  | PyObject string "(string \<times> pyval) list"
  | PyOpaque string

datatype json =
    JNull
  | JBool bool
  | JNumber int
  | JString string
  | JArray "json list"
  | JObject "(string \<times> json) list"

text \<open>\<^verbatim>\<open>_date_to_string\<close>: \<open>strftime\<close> is the library's formatting with the fixed format.\<close>

definition date_to_string :: "(datetime \<Rightarrow> string) \<Rightarrow> datetime \<Rightarrow> string" where
  "date_to_string strftime date = strftime date"

text \<open>\<^verbatim>\<open>type(data).__name__\<close>.\<close>

fun type_name_of :: "pyval \<Rightarrow> string" where
  "type_name_of PyNone = ''NoneType''"
| "type_name_of (PyBool b) = ''bool''"
| "type_name_of (PyInt i) = ''int''"
| "type_name_of (PyStr s) = ''str''"
| "type_name_of (PyDatetime d) = ''datetime''"
| "type_name_of (PyList xs) = ''list''"
| "type_name_of (PyDict kvs) = ''dict''"
| "type_name_of (PyObject cls attrs) = cls"
| "type_name_of (PyOpaque cls) = cls"

text \<open>
  \<^verbatim>\<open>_tojson\<close>, the \<^verbatim>\<open>default\<close> hook: a datetime becomes its string, any other value
  its \<^verbatim>\<open>__dict__\<close>, and reading \<^verbatim>\<open>__dict__\<close> of a value that has none raises
  \<^verbatim>\<open>AttributeError\<close>.
\<close>

fun tojson :: "(datetime \<Rightarrow> string) \<Rightarrow> pyval \<Rightarrow> exn + pyval" where
  "tojson strftime (PyDatetime d) = Inr (PyStr (date_to_string strftime d))"
| "tojson strftime (PyObject cls attrs) = Inr (PyDict (map (\<lambda>(k, v). (KeyStr k, v)) attrs))"
| "tojson strftime v =
     Inl (AttributeError (quoted (type_name_of v) @ '' object has no attribute '' @ quoted ''__dict__''))"

text \<open>
  \<^verbatim>\<open>json.dumps(packaged_data, default=_tojson, sort_keys=True, indent=4)\<close>. The encoder
  writes the values it knows, raises \<^verbatim>\<open>TypeError\<close> on a dictionary with a key it does
  not take, and calls the hook on every other value and encodes what the hook returns
  (which the equations for datetimes, objects and opaque values state directly, see
  \<open>dumps_default\<close>). The items of a dictionary are encoded in the order of their keys,
  and the first exception ends the encoding.
\<close>

fun encode_all :: "(exn + 'a) list \<Rightarrow> exn + 'a list" where
  "encode_all [] = Inr []"
| "encode_all (Inl e # rest) = Inl e"
| "encode_all (Inr x # rest) = (case encode_all rest of Inl e \<Rightarrow> Inl e | Inr xs \<Rightarrow> Inr (x # xs))"

fun encode_items :: "(string \<times> (exn + json)) list \<Rightarrow> exn + json" where
  "encode_items items =
     (case encode_all (map snd (sort_key fst items)) of
        Inl e \<Rightarrow> Inl e
      | Inr values \<Rightarrow> Inr (JObject (zip (map fst (sort_key fst items)) values)))"

fun is_KeyStr :: "pykey \<Rightarrow> bool" where
  "is_KeyStr (KeyStr k) = True"
| "is_KeyStr KeyOther = False"

fun key_str :: "pykey \<Rightarrow> string" where
  "key_str (KeyStr k) = k"
| "key_str KeyOther = []"

fun dumps :: "(datetime \<Rightarrow> string) \<Rightarrow> pyval \<Rightarrow> exn + json" where
  "dumps strftime PyNone = Inr JNull"
| "dumps strftime (PyBool b) = Inr (JBool b)"
| "dumps strftime (PyInt i) = Inr (JNumber i)"
| "dumps strftime (PyStr s) = Inr (JString s)"
| "dumps strftime (PyList xs) =
     (case encode_all (map (dumps strftime) xs) of
        Inl e \<Rightarrow> Inl e
      | Inr values \<Rightarrow> Inr (JArray values))"
| "dumps strftime (PyDict kvs) =
     (if list_all (\<lambda>(k, v). is_KeyStr k) kvs
      then encode_items (map (\<lambda>(k, v). (key_str k, dumps strftime v)) kvs)
      else Inl (TypeError ''keys must be str, int, float, bool or None''))"
| "dumps strftime (PyDatetime d) = Inr (JString (date_to_string strftime d))"
| "dumps strftime (PyObject cls attrs) =
     encode_items (map (\<lambda>(k, v). (k, dumps strftime v)) attrs)"
| "dumps strftime (PyOpaque cls) =
     Inl (AttributeError (quoted cls @ '' object has no attribute '' @ quoted ''__dict__''))"

subsection \<open>Statements and the connection\<close>

text \<open>
  A row of the table \<^verbatim>\<open>WAREHOUSE\<close>, the five SQL statements of the module (the insert
  with its bound parameters), and \<^verbatim>\<open>connection.execute\<close>: a connection acts on a state
  \<open>'c\<close>, the database behind it, and either raises or returns. \<^verbatim>\<open>_connect()\<close> is taken to
  succeed. The block \<^verbatim>\<open>with connection\<close> commits when it ends and rolls back when an
  exception leaves it; a statement that raises has changed nothing, so \<open>'c\<close> is
  then the state the statements before it left.
\<close>

record warehouse_row =
  GUID :: string
  SOURCE_IDENTIFIER :: string
  RECORD_DATE :: string
  JSON :: json

datatype statement =
    DDL_DROP_LOADSTATS
  | DDL_CREATE_LOADSTATS
  | DDL_DROP_WAREHOUSE
  | DDL_CREATE_WAREHOUSE
  | INSERT_WAREHOUSE warehouse_row

type_synonym 'c connection = "statement \<Rightarrow> 'c \<Rightarrow> exn option \<times> 'c"

text \<open>\<^verbatim>\<open>_execute_query\<close> wraps an \<^verbatim>\<open>sqlite3.OperationalError\<close> into a \<^verbatim>\<open>DatabaseError\<close>.\<close>

definition execute_query :: "'c connection \<Rightarrow> statement \<Rightarrow> 'c \<Rightarrow> exn option \<times> 'c" where
  "execute_query connection query c =
     (case connection query c of
        (Some e, c') \<Rightarrow>
          (if is_OperationalError e then Some (DatabaseError (''sqlite3: '' @ str_exn e))
           else Some e, c')
      | (None, c') \<Rightarrow> (None, c'))"

text \<open>
  \<^verbatim>\<open>try: connection.execute(drop) except sqlite3.OperationalError: pass\<close>, which
  \<^verbatim>\<open>install\<close> does for each of the two tables.
\<close>

definition try_drop :: "'c connection \<Rightarrow> statement \<Rightarrow> 'c \<Rightarrow> exn option \<times> 'c" where
  "try_drop connection query c =
     (case connection query c of
        (Some e, c') \<Rightarrow> (if is_OperationalError e then None else Some e, c')
      | (None, c') \<Rightarrow> (None, c'))"

text \<open>
  \<^verbatim>\<open>install\<close>: the table of load statistics is created by \<^verbatim>\<open>connection.execute\<close>, the
  warehouse table by \<^verbatim>\<open>_execute_query\<close>.
\<close>

definition install :: "'c connection \<Rightarrow> 'c \<Rightarrow> exn option \<times> 'c" where
  "install connection c =
     (case try_drop connection DDL_DROP_LOADSTATS c of
        (Some e, c1) \<Rightarrow> (Some e, c1)
      | (None, c1) \<Rightarrow>
          (case connection DDL_CREATE_LOADSTATS c1 of
             (Some e, c2) \<Rightarrow> (Some e, c2)
           | (None, c2) \<Rightarrow>
               (case try_drop connection DDL_DROP_WAREHOUSE c2 of
                  (Some e, c3) \<Rightarrow> (Some e, c3)
                | (None, c3) \<Rightarrow> execute_query connection DDL_CREATE_WAREHOUSE c3)))"

text \<open>
  \<^verbatim>\<open>warehouse\<close>. \<open>uuid1\<close> is \<^verbatim>\<open>str(uuid.uuid1())\<close> at the call. Only a \<^verbatim>\<open>TypeError\<close> of
  the serialization is turned into a \<^verbatim>\<open>DatabaseError\<close>.
\<close>

definition warehouse ::
  "'c connection \<Rightarrow> (datetime \<Rightarrow> string) \<Rightarrow> string \<Rightarrow> pyval \<Rightarrow> string \<Rightarrow> datetime \<Rightarrow> 'c
     \<Rightarrow> exn option \<times> 'c" where
  "warehouse connection strftime uuid1 data source record_date c =
     (let data_type = type_name_of data;
          packaged_data = PyDict [(KeyStr ''$class'', PyStr data_type), (KeyStr ''$contents'', data)]
      in case dumps strftime packaged_data of
           Inl e \<Rightarrow>
             (if is_TypeError e then Some (DatabaseError ''JSON-serialization failed on data'')
              else Some e, c)
         | Inr json_string \<Rightarrow>
             execute_query connection
               (INSERT_WAREHOUSE
                  \<lparr>GUID = upper uuid1, SOURCE_IDENTIFIER = upper (strip source),
                   RECORD_DATE = date_to_string strftime record_date,
                   JSON = json_string\<rparr>) c)"


section \<open>A database engine\<close>

text \<open>
  The part of SQLite that the five statements need: which of the two tables exist, the
  rows of the warehouse table, and \<open>locks\<close>, which says for each coming statement
  whether another process holds the database locked when it runs (nobody does after the
  list ends). A statement that meets a lock fails with \<^verbatim>\<open>database is locked\<close>; a table
  that is missing, or is there already, fails the statement as SQLite does. All these
  are \<^verbatim>\<open>sqlite3.OperationalError\<close>.
\<close>

record database =
  loadstats_table :: bool
  warehouse_table :: "warehouse_row list option"
  locks :: "bool list"

definition sqlite3_statement :: "statement \<Rightarrow> database \<Rightarrow> exn option \<times> database" where
  "sqlite3_statement query d =
     (case query of
        DDL_DROP_LOADSTATS \<Rightarrow>
          if loadstats_table d then (None, d\<lparr>loadstats_table := False\<rparr>)
          else (Some (sqlite3_OperationalError ''no such table: CDLS_LOAD_STATS''), d)
      | DDL_CREATE_LOADSTATS \<Rightarrow>
          if loadstats_table d
          then (Some (sqlite3_OperationalError ''table `CDLS_LOAD_STATS` already exists''), d)
          else (None, d\<lparr>loadstats_table := True\<rparr>)
      | DDL_DROP_WAREHOUSE \<Rightarrow>
          (case warehouse_table d of
             None \<Rightarrow> (Some (sqlite3_OperationalError ''no such table: WAREHOUSE''), d)
           | Some rows \<Rightarrow> (None, d\<lparr>warehouse_table := None\<rparr>))
      | DDL_CREATE_WAREHOUSE \<Rightarrow>
          (case warehouse_table d of
             None \<Rightarrow> (None, d\<lparr>warehouse_table := Some []\<rparr>)
           | Some rows \<Rightarrow> (Some (sqlite3_OperationalError ''table `WAREHOUSE` already exists''), d))
      | INSERT_WAREHOUSE row \<Rightarrow>
          (case warehouse_table d of
             None \<Rightarrow> (Some (sqlite3_OperationalError ''no such table: warehouse''), d)
           | Some rows \<Rightarrow> (None, d\<lparr>warehouse_table := Some (rows @ [row])\<rparr>)))"

definition sqlite3_execute :: "database connection" where
  "sqlite3_execute query d =
     (case locks d of
        [] \<Rightarrow> sqlite3_statement query d
      | locked # later \<Rightarrow>
          if locked then (Some (sqlite3_OperationalError ''database is locked''), d\<lparr>locks := later\<rparr>)
          else sqlite3_statement query (d\<lparr>locks := later\<rparr>))"


section \<open>Notions used to state the properties\<close>

text \<open>
  What each source does when the sources of a list are executed one after another,
  whatever the outcomes: the outcome of every \<^verbatim>\<open>execute\<close> call and the final \<open>'w\<close>.
  It fixes what "a source raises" and "a source returns" mean when the sources share
  \<open>'w\<close>.
\<close>

fun execute_in_turn :: "'w datasource list \<Rightarrow> 'w \<Rightarrow> (exn + LoadReport) list \<times> 'w" where
  "execute_in_turn [] w = ([], w)"
| "execute_in_turn (datasource # rest) w =
     (case ds_execute datasource w of
        (outcome, w') \<Rightarrow>
          (case execute_in_turn rest w' of (outcomes, w'') \<Rightarrow> (outcome # outcomes, w'')))"

text \<open>The reports among a list of outcomes, in order.\<close>

fun returned :: "(exn + 'a) list \<Rightarrow> 'a list" where
  "returned [] = []"
| "returned (Inr r # outcomes) = r # returned outcomes"
| "returned (Inl e # outcomes) = returned outcomes"

fun returned_normally :: "exn + 'a \<Rightarrow> bool" where
  "returned_normally (Inr r) = True"
| "returned_normally (Inl e) = False"

fun raised_domain_error :: "exn + 'a \<Rightarrow> bool" where
  "raised_domain_error (Inr r) = False"
| "raised_domain_error (Inl e) = is_CDLSError e"

text \<open>A source as the registry stores it: with the shared logger and database injected.\<close>

definition injected :: "'w cdls \<Rightarrow> 'w datasource \<Rightarrow> 'w datasource" where
  "injected st ds = ds\<lparr>ds_logger := logger st, ds_db := db st\<rparr>"

text \<open>A sequence of calls of \<open>update_latest_record_date\<close>, ended by the first exception.\<close>

fun update_all ::
  "time_library \<Rightarrow> 'w datasource \<Rightarrow> date_arg list \<Rightarrow> exn + 'w datasource" where
  "update_all lib self [] = Inr self"
| "update_all lib self (d # ds) =
     (case update_latest_record_date lib self d of
        Inl e \<Rightarrow> Inl e
      | Inr self' \<Rightarrow> update_all lib self' ds)"

text \<open>The outcome of a statement that did not raise, or raised an \<^verbatim>\<open>sqlite3.OperationalError\<close>.\<close>

fun operational_or_none :: "exn option \<Rightarrow> bool" where
  "operational_or_none None = True"
| "operational_or_none (Some e) = is_OperationalError e"


section \<open>Example sources and registries\<close>

text \<open>
  Sources whose \<open>'w\<close> is the list of the identifiers of the sources executed so far:
  each \<^verbatim>\<open>execute\<close> appends its own identifier and then returns a report or raises.
\<close>

definition finished_report :: "string \<Rightarrow> LoadReport" where
  "finished_report ident =
     (LoadReport_init ident)\<lparr>number_processed := 2, number_successes := 2,
                              successful := True, time_elapsed := 1\<rparr>"

definition example_source ::
  "string \<Rightarrow> (exn + LoadReport) \<Rightarrow> string list datasource" where
  "example_source ident outcome =
     \<lparr>ds_config = [''id'' \<mapsto> ident, ''description'' \<mapsto> ''example''],
      ds_identifier = ident, ds_description = ''example'', ds_type = ''ExampleDataSource'',
      ds_report = LoadReport_init ident, ds_db = None, ds_logger = None,
      ds_execute = (\<lambda>w. (outcome, w @ [ident]))\<rparr>"

definition loading_source :: "string \<Rightarrow> string list datasource" where
  "loading_source ident = example_source ident (Inr (finished_report ident))"

definition failing_source :: "string \<Rightarrow> exn \<Rightarrow> string list datasource" where
  "failing_source ident e = example_source ident (Inl e)"

definition empty_cdls :: "'w cdls" where
  "empty_cdls = \<lparr>datasources = [], db = Some ''cdls.db'', logger = Some ''cdls.logging''\<rparr>"

definition registry_a_b_c :: "string list cdls" where
  "registry_a_b_c =
     register_datasource
       (register_datasource
          (register_datasource empty_cdls (loading_source ''a''))
          (failing_source ''b'' (ExtractError ''no data'')))
       (loading_source ''c'')"

definition registry_a_b_x_c :: "string list cdls" where
  "registry_a_b_x_c =
     register_datasource
       (register_datasource
          (register_datasource
             (register_datasource empty_cdls (loading_source ''a''))
             (failing_source ''b'' (ExtractError ''no data'')))
          (failing_source ''x'' (ValueError ''bad literal'')))
       (loading_source ''c'')"

definition registry_b_a :: "string list cdls" where
  "registry_b_a =
     register_datasource (register_datasource empty_cdls (loading_source ''b''))
       (loading_source ''a'')"

text \<open>A source whose configured identifier has a space on each side.\<close>

definition source_padded :: "string list datasource" where
  "source_padded = loading_source '' a ''"

text \<open>
  The importable modules of the examples: \<^verbatim>\<open>cdls.datasources\<close> with the class
  \<^verbatim>\<open>BaseDataSource\<close>, the class \<^verbatim>\<open>LoadReport\<close>, which is not a data source class, and the
  string \<^verbatim>\<open>_REPORT_FORMAT\<close>.
\<close>

definition example_modules :: "string list modules" where
  "example_modules =
     [''cdls.datasources'' \<mapsto>
        [''BaseDataSource'' \<mapsto> DataSourceClass BaseDataSource,
         ''LoadReport'' \<mapsto> OtherClass,
         ''_REPORT_FORMAT'' \<mapsto> NotAClass]]"

definition node_a :: config_node where
  "node_a = [''@QualifiedClassName'' \<mapsto> ''cdls.datasources.BaseDataSource'',
             ''id'' \<mapsto> ''a'', ''description'' \<mapsto> ''first source'']"

definition node_c :: config_node where
  "node_c = [''@QualifiedClassName'' \<mapsto> ''cdls.datasources.BaseDataSource'',
             ''id'' \<mapsto> ''c'', ''description'' \<mapsto> ''third source'']"

definition node_no_such_class :: config_node where
  "node_no_such_class = [''@QualifiedClassName'' \<mapsto> ''cdls.datasources.NoSuchSource'',
             ''id'' \<mapsto> ''b'', ''description'' \<mapsto> ''second source'']"

definition node_load_report :: config_node where
  "node_load_report = [''@QualifiedClassName'' \<mapsto> ''cdls.datasources.LoadReport'',
             ''id'' \<mapsto> ''b'', ''description'' \<mapsto> ''second source'']"

definition node_unqualified :: config_node where
  "node_unqualified = [''id'' \<mapsto> ''b'', ''description'' \<mapsto> ''second source'']"

definition node_no_such_module :: config_node where
  "node_no_such_module = [''@QualifiedClassName'' \<mapsto> ''nowhere.Source'',
             ''id'' \<mapsto> ''b'', ''description'' \<mapsto> ''second source'']"

definition node_no_id :: config_node where
  "node_no_id = [''@QualifiedClassName'' \<mapsto> ''cdls.datasources.BaseDataSource'',
             ''description'' \<mapsto> ''second source'']"

text \<open>
  A time library that knows one string: 1999-07-04T11:00:00 read in a zone four hours
  behind UTC.
\<close>

definition example_time_library :: time_library where
  "example_time_library datestring formatting =
     (if datestring = ''1999-07-04T11:00:00'' \<and> formatting = ''%Y-%m-%dT%H:%M:%S''
      then Inr 63066697200000000
      else Inl (ValueError ''time data does not match format''))"

text \<open>
  Databases: one with no table, and one with both tables on which the third and the
  fourth statement to come meet a lock. Records: one with a \<^verbatim>\<open>bytes\<close> attribute, one
  without.
\<close>

definition new_database :: database where
  "new_database = \<lparr>loadstats_table = False, warehouse_table = None, locks = []\<rparr>"

definition installed_then_locked :: database where
  "installed_then_locked =
     \<lparr>loadstats_table = True, warehouse_table = Some [], locks = [False, False, True, True]\<rparr>"

definition fake_data :: pyval where
  "fake_data = PyObject ''FakeData''
     [(''id'', PyInt 0), (''title'', PyStr ''lorem ipsum''), (''payload'', PyOpaque ''bytes''),
      (''created_on'', PyDatetime (Naive 63113904000000000))]"

definition good_data :: pyval where
  "good_data = PyObject ''FakeData''
     [(''id'', PyInt 0), (''title'', PyStr ''lorem ipsum''),
      (''created_on'', PyDatetime (Naive 63113904000000000))]"


section \<open>The batch loop\<close>

text \<open>
  While the sources return, or raise domain errors with \<open>halt_on_error\<close> off, the loop
  goes on: it has collected the reports returned so far and has called every source of
  the prefix.
\<close>

lemma loop_prefix:
  "execute_in_turn pre w = (outcomes, w1) \<Longrightarrow>
   list_all (\<lambda>x. returned_normally x \<or> (raised_domain_error x \<and> \<not> h)) outcomes \<Longrightarrow>
   perform_all_loads_loop h (pre @ rest) reports called w =
   perform_all_loads_loop h rest (reports @ returned outcomes)
     (called @ map get_identifier pre) w1"
proof (induction pre arbitrary: w outcomes reports called)
  case Nil
  then show ?case by simp
next
  case (Cons ds pre)
  obtain x w' where x: "ds_execute ds w = (x, w')" by (cases "ds_execute ds w")
  obtain xs w'' where xs: "execute_in_turn pre w' = (xs, w'')" by (cases "execute_in_turn pre w'")
  from Cons.prems(1) x xs have o: "outcomes = x # xs" and w1: "w1 = w''" by auto
  from xs w1 have xs1: "execute_in_turn pre w' = (xs, w1)" by simp
  from Cons.prems(2) o have hd: "returned_normally x \<or> (raised_domain_error x \<and> \<not> h)"
    and tl: "list_all (\<lambda>x. returned_normally x \<or> (raised_domain_error x \<and> \<not> h)) xs" by auto
  show ?case
  proof (cases x)
    case (Inr r)
    with x o Cons.IH[OF xs1 tl] show ?thesis by simp
  next
    case (Inl e)
    with hd have "is_CDLSError e" "\<not> h" by auto
    with Inl x o Cons.IH[OF xs1 tl] show ?thesis by simp
  qed
qed

lemma length_returned:
  "list_all (\<lambda>x. returned_normally x \<or> raised_domain_error x) outcomes \<Longrightarrow>
   length (returned outcomes) = length outcomes - length (filter raised_domain_error outcomes)"
proof (induction outcomes)
  case Nil then show ?case by simp
next
  case (Cons x xs)
  have "length (filter raised_domain_error xs) \<le> length xs" by simp
  with Cons show ?case by (cases x) (auto simp: Suc_diff_le)
qed

lemma length_execute_in_turn:
  "execute_in_turn dss w = (outcomes, w') \<Longrightarrow> length outcomes = length dss"
  by (induction dss arbitrary: w outcomes) (auto split: prod.splits)

lemma values_registry_a_b_c:
  "dict_values (datasources registry_a_b_c) =
     [(loading_source ''a'')\<lparr>ds_logger := Some ''cdls.logging'', ds_db := Some ''cdls.db''\<rparr>,
      (failing_source ''b'' (ExtractError ''no data''))\<lparr>ds_logger := Some ''cdls.logging'', ds_db := Some ''cdls.db''\<rparr>,
      (loading_source ''c'')\<lparr>ds_logger := Some ''cdls.logging'', ds_db := Some ''cdls.db''\<rparr>]"
  by (simp add: registry_a_b_c_def register_datasource_def empty_cdls_def dict_values_def
      register_logger_ds_def register_database_ds_def get_identifier_def
      loading_source_def failing_source_def example_source_def)

text \<open>
  C2. With \<open>halt_on_error = False\<close>, when every registered source either returns or
  raises a domain error, \<open>perform_all_loads\<close> returns the reports of the sources that
  returned, in order, and no other report; it has called every source, so the batch went
  on past each failure; and the number of reports is the number \<open>N\<close> of sources minus
  the number \<open>K\<close> of sources that raised.
\<close>

theorem perform_all_loads_skips_failing_sources:
  assumes "execute_in_turn (dict_values (datasources st)) w = (outcomes, w')"
    and "list_all (\<lambda>x. returned_normally x \<or> raised_domain_error x) outcomes"
  shows "perform_all_loads False st w =
           (Inr (returned outcomes), map get_identifier (dict_values (datasources st)), w')
         \<and> length (returned outcomes) =
             length (dict_values (datasources st)) - length (filter raised_domain_error outcomes)"
proof -
  from assms(2)
  have ok: "list_all (\<lambda>x. returned_normally x \<or> (raised_domain_error x \<and> \<not> False)) outcomes"
    by simp
  have "perform_all_loads_loop False (dict_values (datasources st) @ []) [] [] w =
        perform_all_loads_loop False [] ([] @ returned outcomes)
          ([] @ map get_identifier (dict_values (datasources st))) w'"
    by (rule loop_prefix [OF assms(1) ok])
  then have run: "perform_all_loads False st w =
      (Inr (returned outcomes), map get_identifier (dict_values (datasources st)), w')"
    by (simp add: perform_all_loads_def)
  from length_returned [OF assms(2)] length_execute_in_turn [OF assms(1)]
  have "length (returned outcomes) =
        length (dict_values (datasources st)) - length (filter raised_domain_error outcomes)"
    by simp
  with run show ?thesis by simp
qed

theorem perform_all_loads_skips_failing_sources_witness:
  "execute_in_turn (dict_values (datasources registry_a_b_c)) [] =
     ([Inr (finished_report ''a''), Inl (ExtractError ''no data''), Inr (finished_report ''c'')],
      [''a'', ''b'', ''c''])
   \<and> perform_all_loads False registry_a_b_c [] =
     (Inr [finished_report ''a'', finished_report ''c''], [''a'', ''b'', ''c''], [''a'', ''b'', ''c''])
   \<and> length [finished_report ''a'', finished_report ''c''] = 3 - (1::nat)"
proof -
  have run: "execute_in_turn (dict_values (datasources registry_a_b_c)) [] =
     ([Inr (finished_report ''a''), Inl (ExtractError ''no data''), Inr (finished_report ''c'')],
      [''a'', ''b'', ''c''])"
    by (simp add: values_registry_a_b_c loading_source_def failing_source_def example_source_def)
  have ok: "list_all (\<lambda>x. returned_normally x \<or> raised_domain_error x)
     [Inr (finished_report ''a''), Inl (ExtractError ''no data''), Inr (finished_report ''c'')]"
    by simp
  from perform_all_loads_skips_failing_sources [OF run ok] run show ?thesis
    by (simp add: values_registry_a_b_c get_identifier_def loading_source_def
        failing_source_def example_source_def)
qed

lemma values_registry_a_b_x_c:
  "dict_values (datasources registry_a_b_x_c) =
     [(loading_source ''a'')\<lparr>ds_logger := Some ''cdls.logging'', ds_db := Some ''cdls.db''\<rparr>,
      (failing_source ''b'' (ExtractError ''no data''))\<lparr>ds_logger := Some ''cdls.logging'', ds_db := Some ''cdls.db''\<rparr>,
      (failing_source ''x'' (ValueError ''bad literal''))\<lparr>ds_logger := Some ''cdls.logging'', ds_db := Some ''cdls.db''\<rparr>,
      (loading_source ''c'')\<lparr>ds_logger := Some ''cdls.logging'', ds_db := Some ''cdls.db''\<rparr>]"
  by (simp add: registry_a_b_x_c_def register_datasource_def empty_cdls_def dict_values_def
      register_logger_ds_def register_database_ds_def get_identifier_def
      loading_source_def failing_source_def example_source_def)

lemma loop_stops:
  assumes "execute_in_turn pre w = (outcomes, w1)"
    and "list_all (\<lambda>x. returned_normally x \<or> (raised_domain_error x \<and> \<not> h)) outcomes"
    and "ds_execute failing w1 = (Inl e, w2)"
    and "is_CDLSError e \<Longrightarrow> h"
  shows "perform_all_loads_loop h (pre @ failing # rest) [] [] w =
           (Inl e, map get_identifier pre @ [get_identifier failing], w2)"
proof -
  have "perform_all_loads_loop h (pre @ failing # rest) [] [] w =
        perform_all_loads_loop h (failing # rest) ([] @ returned outcomes)
          ([] @ map get_identifier pre) w1"
    by (rule loop_prefix [OF assms(1) assms(2)])
  also from assms(3) assms(4) have "\<dots> = (Inl e, map get_identifier pre @ [get_identifier failing], w2)"
    by auto
  finally show ?thesis .
qed

text \<open>
  C8. With \<open>halt_on_error = True\<close>, when the sources before \<open>failing\<close> return and
  \<open>failing\<close> raises a domain error \<open>e\<close>, \<open>perform_all_loads\<close> raises \<open>e\<close>: the result
  is the exception and no report list, the sources called are those up to \<open>failing\<close>
  and none of \<open>rest\<close>, and \<open>'w\<close> is as \<open>failing\<close> left it.
\<close>

theorem halt_on_error_raises_first_domain_error:
  assumes "dict_values (datasources st) = pre @ failing # rest"
    and "execute_in_turn pre w = (outcomes, w1)"
    and "list_all returned_normally outcomes"
    and "ds_execute failing w1 = (Inl e, w2)"
    and "is_CDLSError e"
  shows "perform_all_loads True st w =
           (Inl e, map get_identifier pre @ [get_identifier failing], w2)"
proof -
  from assms(3)
  have ok: "list_all (\<lambda>x. returned_normally x \<or> (raised_domain_error x \<and> \<not> True)) outcomes"
    by simp
  from loop_stops [OF assms(2) ok assms(4)] assms(1) show ?thesis
    by (simp add: perform_all_loads_def)
qed

theorem halt_on_error_raises_first_domain_error_witness:
  "dict_values (datasources registry_a_b_c) =
     [(loading_source ''a'')\<lparr>ds_logger := Some ''cdls.logging'', ds_db := Some ''cdls.db''\<rparr>]
     @ (failing_source ''b'' (ExtractError ''no data''))\<lparr>ds_logger := Some ''cdls.logging'', ds_db := Some ''cdls.db''\<rparr>
     # [(loading_source ''c'')\<lparr>ds_logger := Some ''cdls.logging'', ds_db := Some ''cdls.db''\<rparr>]
   \<and> is_CDLSError (ExtractError ''no data'')
   \<and> perform_all_loads True registry_a_b_c [] =
       (Inl (ExtractError ''no data''), [''a'', ''b''], [''a'', ''b''])"
proof -
  let ?a = "(loading_source ''a'')\<lparr>ds_logger := Some ''cdls.logging'', ds_db := Some ''cdls.db''\<rparr>"
  let ?b = "(failing_source ''b'' (ExtractError ''no data''))\<lparr>ds_logger := Some ''cdls.logging'', ds_db := Some ''cdls.db''\<rparr>"
  let ?c = "(loading_source ''c'')\<lparr>ds_logger := Some ''cdls.logging'', ds_db := Some ''cdls.db''\<rparr>"
  have v: "dict_values (datasources registry_a_b_c) = [?a] @ ?b # [?c]"
    by (simp add: values_registry_a_b_c)
  have pre: "execute_in_turn [?a] [] = ([Inr (finished_report ''a'')], [''a''])"
    by (simp add: loading_source_def example_source_def)
  have ok: "list_all returned_normally [Inr (finished_report ''a'') :: exn + LoadReport]"
    by simp
  have bad: "ds_execute ?b [''a''] = (Inl (ExtractError ''no data''), [''a'', ''b''])"
    by (simp add: failing_source_def example_source_def)
  have dom: "is_CDLSError (ExtractError ''no data'')" by simp
  from halt_on_error_raises_first_domain_error [OF v pre ok bad dom] v dom show ?thesis
    by (simp add: get_identifier_def loading_source_def failing_source_def example_source_def)
qed

text \<open>
  C10. When a source raises an exception \<open>e\<close> that is not a domain error,
  \<open>perform_all_loads\<close> raises \<open>e\<close> at once, whatever \<open>halt_on_error\<close> is (the sources
  before it have returned or, with \<open>halt_on_error\<close> off, raised domain errors): no later
  source is called.
\<close>

theorem other_exception_propagates:
  assumes "dict_values (datasources st) = pre @ failing # rest"
    and "execute_in_turn pre w = (outcomes, w1)"
    and "list_all (\<lambda>x. returned_normally x \<or> (raised_domain_error x \<and> \<not> halt_on_error)) outcomes"
    and "ds_execute failing w1 = (Inl e, w2)"
    and "\<not> is_CDLSError e"
  shows "perform_all_loads halt_on_error st w =
           (Inl e, map get_identifier pre @ [get_identifier failing], w2)"
proof -
  from assms(5) have "is_CDLSError e \<Longrightarrow> halt_on_error" by simp
  from loop_stops [OF assms(2) assms(3) assms(4) this] assms(1) show ?thesis
    by (simp add: perform_all_loads_def)
qed

theorem other_exception_propagates_witness:
  "\<not> is_CDLSError (ValueError ''bad literal'')
   \<and> perform_all_loads False registry_a_b_x_c [] =
       (Inl (ValueError ''bad literal''), [''a'', ''b'', ''x''], [''a'', ''b'', ''x''])"
proof -
  let ?a = "(loading_source ''a'')\<lparr>ds_logger := Some ''cdls.logging'', ds_db := Some ''cdls.db''\<rparr>"
  let ?b = "(failing_source ''b'' (ExtractError ''no data''))\<lparr>ds_logger := Some ''cdls.logging'', ds_db := Some ''cdls.db''\<rparr>"
  let ?x = "(failing_source ''x'' (ValueError ''bad literal''))\<lparr>ds_logger := Some ''cdls.logging'', ds_db := Some ''cdls.db''\<rparr>"
  let ?c = "(loading_source ''c'')\<lparr>ds_logger := Some ''cdls.logging'', ds_db := Some ''cdls.db''\<rparr>"
  have v: "dict_values (datasources registry_a_b_x_c) = [?a, ?b] @ ?x # [?c]"
    by (simp add: values_registry_a_b_x_c)
  have pre: "execute_in_turn [?a, ?b] [] =
      ([Inr (finished_report ''a''), Inl (ExtractError ''no data'')], [''a'', ''b''])"
    by (simp add: loading_source_def failing_source_def example_source_def)
  have ok: "list_all (\<lambda>x. returned_normally x \<or> (raised_domain_error x \<and> \<not> False))
      [Inr (finished_report ''a''), Inl (ExtractError ''no data'')]"
    by simp
  have bad: "ds_execute ?x [''a'', ''b''] = (Inl (ValueError ''bad literal''), [''a'', ''b'', ''x''])"
    by (simp add: failing_source_def example_source_def)
  have other: "\<not> is_CDLSError (ValueError ''bad literal'')" by simp
  from other_exception_propagates [OF v pre ok bad other] other show ?thesis
    by (simp add: get_identifier_def loading_source_def failing_source_def example_source_def)
qed


section \<open>The registry\<close>

subsection \<open>Dictionary stores\<close>

lemma map_of_dict_setitem: "map_of (dict_setitem d k v) = (map_of d)(k \<mapsto> v)"
  by (induction d) (auto simp: fun_eq_iff)

lemma keys_dict_setitem:
  "map fst (dict_setitem d k v) = (if k \<in> set (map fst d) then map fst d else map fst d @ [k])"
proof (induction d)
  case Nil
  then show ?case by simp
next
  case (Cons kv d)
  obtain k' v' where kv: "kv = (k', v')" by (cases kv)
  with Cons show ?case by (cases "k' = k") auto
qed

lemma distinct_dict_setitem:
  "distinct (map fst d) \<Longrightarrow> distinct (map fst (dict_setitem d k v))"
  by (simp add: keys_dict_setitem)

lemma entries_dict_setitem:
  "distinct (map fst d) \<Longrightarrow> filter (\<lambda>(k', v'). k' = k) (dict_setitem d k v) = [(k, v)]"
proof (induction d)
  case Nil
  then show ?case by simp
next
  case (Cons kv d)
  obtain k' v' where kv: "kv = (k', v')" by (cases kv)
  show ?case
  proof (cases "k' = k")
    case True
    with Cons.prems kv have "k \<notin> fst ` set d" by simp
    then have "filter (\<lambda>(k', v'). k' = k) d = []"
      by (auto simp: filter_empty_conv image_iff)
    with True kv show ?thesis by simp
  next
    case False
    with Cons kv show ?thesis by simp
  qed
qed

lemma values_keyed_dict_setitem:
  "list_all (\<lambda>(k, ds). f ds = k) d \<Longrightarrow> f v = k \<Longrightarrow>
   list_all (\<lambda>(k, ds). f ds = k) (dict_setitem d k v)"
  by (induction d) auto

subsection \<open>Registering a source\<close>

lemma register_datasource_eq:
  "register_datasource st ds =
     st\<lparr>datasources := dict_setitem (datasources st) (get_identifier ds) (injected st ds)\<rparr>"
  by (simp add: register_datasource_def register_logger_ds_def register_database_ds_def
      get_identifier_def injected_def)

lemma register_datasource_keeps_keying:
  assumes "list_all (\<lambda>(k, ds). get_identifier ds = k) (datasources st)"
  shows "list_all (\<lambda>(k, ds). get_identifier ds = k) (datasources (register_datasource st ds))"
proof -
  have "get_identifier (injected st ds) = get_identifier ds"
    by (simp add: injected_def get_identifier_def)
  with assms show ?thesis
    by (simp add: register_datasource_eq values_keyed_dict_setitem)
qed

lemma register_datasource_keys:
  "dict_keys (datasources (register_datasource st ds)) =
     (if get_identifier ds \<in> set (dict_keys (datasources st)) then dict_keys (datasources st)
      else dict_keys (datasources st) @ [get_identifier ds])"
  by (simp add: register_datasource_eq dict_keys_def keys_dict_setitem)

text \<open>
  C5, as the code has it. The claim says that the key is the identifier with the
  surrounding whitespace trimmed; \<open>register_datasource\<close> uses the identifier as
  \<open>get_identifier\<close> returns it. The source configured with the identifier \<open>'' a ''\<close> is
  stored under \<open>'' a ''\<close>, nothing is stored under \<open>''a''\<close>, and \<open>perform_load\<close>, which
  trims the identifier it is given, does not find the source.
\<close>

theorem register_datasource_not_trimmed_counterexample:
  "get_identifier source_padded = '' a ''
   \<and> strip '' a '' = ''a''
   \<and> dict_keys (datasources (register_datasource empty_cdls source_padded)) = ['' a '']
   \<and> dict_get (datasources (register_datasource empty_cdls source_padded)) ''a'' = None
   \<and> perform_load (register_datasource empty_cdls source_padded) '' a '' [] =
       (Inl (UnregisteredSourceError ''Source a is not registered''), [])"
  by (simp add: source_padded_def register_datasource_eq empty_cdls_def dict_keys_def
      dict_get_def perform_load_def strip_def is_space_def get_identifier_def
      loading_source_def example_source_def)

text \<open>
  C5, amended. \<open>register_datasource\<close> stores the instance, with the shared logger and
  database injected, under its identifier as \<open>get_identifier\<close> returns it (not
  trimmed), and overwrites an entry of the same identifier: after two registrations
  with one identifier, the identifier is looked up to the later instance, it has exactly
  one entry, and the second registration adds no key.
\<close>

theorem register_datasource_last_write_wins:
  assumes "distinct (dict_keys (datasources st))"
    and "get_identifier ds2 = get_identifier ds1"
  shows "dict_get (datasources (register_datasource (register_datasource st ds1) ds2))
           (get_identifier ds2) = Some (injected st ds2)
       \<and> filter (\<lambda>(k, ds). k = get_identifier ds2)
           (datasources (register_datasource (register_datasource st ds1) ds2))
           = [(get_identifier ds2, injected st ds2)]
       \<and> dict_keys (datasources (register_datasource (register_datasource st ds1) ds2))
           = dict_keys (datasources (register_datasource st ds1))"
proof -
  let ?st1 = "register_datasource st ds1"
  have lg: "logger ?st1 = logger st" "db ?st1 = db st"
    by (simp_all add: register_datasource_eq)
  then have inj: "injected ?st1 ds2 = injected st ds2" by (simp add: injected_def)
  from assms(1) have d1: "distinct (map fst (datasources ?st1))"
    by (simp add: register_datasource_eq dict_keys_def distinct_dict_setitem)
  have "get_identifier ds1 \<in> set (map fst (datasources ?st1))"
    by (simp add: register_datasource_eq keys_dict_setitem)
  with assms(2) have mem: "get_identifier ds2 \<in> set (map fst (datasources ?st1))" by simp
  have a: "dict_get (datasources (register_datasource ?st1 ds2)) (get_identifier ds2)
             = Some (injected st ds2)"
    by (simp add: register_datasource_eq [of ?st1] dict_get_def map_of_dict_setitem inj)
  have b: "filter (\<lambda>(k, ds). k = get_identifier ds2) (datasources (register_datasource ?st1 ds2))
             = [(get_identifier ds2, injected st ds2)]"
    using entries_dict_setitem [OF d1] by (simp add: register_datasource_eq [of ?st1] inj)
  have c: "dict_keys (datasources (register_datasource ?st1 ds2)) = dict_keys (datasources ?st1)"
    using mem by (simp add: register_datasource_eq [of ?st1] dict_keys_def keys_dict_setitem)
  from a b c show ?thesis by simp
qed

theorem register_datasource_last_write_wins_witness:
  "distinct (dict_keys (datasources (empty_cdls :: string list cdls)))
   \<and> get_identifier (failing_source '' a '' (ExtractError ''no data'')) = get_identifier source_padded
   \<and> dict_get (datasources (register_datasource (register_datasource empty_cdls source_padded)
          (failing_source '' a '' (ExtractError ''no data'')))) '' a ''
       = Some (injected empty_cdls (failing_source '' a '' (ExtractError ''no data'')))
   \<and> dict_keys (datasources (register_datasource (register_datasource empty_cdls source_padded)
          (failing_source '' a '' (ExtractError ''no data'')))) = ['' a '']"
proof -
  have d: "distinct (dict_keys (datasources (empty_cdls :: string list cdls)))"
    by (simp add: empty_cdls_def dict_keys_def)
  have i: "get_identifier (failing_source '' a '' (ExtractError ''no data'')) = get_identifier source_padded"
    by (simp add: get_identifier_def source_padded_def loading_source_def failing_source_def
        example_source_def)
  have k: "get_identifier (failing_source '' a '' (ExtractError ''no data'')) = '' a ''"
    by (simp add: get_identifier_def failing_source_def example_source_def)
  have keys1: "dict_keys (datasources (register_datasource empty_cdls source_padded)) = ['' a '']"
    by (simp add: source_padded_def register_datasource_eq empty_cdls_def dict_keys_def
      get_identifier_def loading_source_def example_source_def)
  note t = register_datasource_last_write_wins [OF d i, unfolded k]
  from t have g: "dict_get (datasources (register_datasource (register_datasource empty_cdls source_padded)
          (failing_source '' a '' (ExtractError ''no data'')))) '' a ''
       = Some (injected empty_cdls (failing_source '' a '' (ExtractError ''no data'')))"
    by (rule conjunct1)
  from t keys1 have ks: "dict_keys (datasources (register_datasource (register_datasource empty_cdls source_padded)
          (failing_source '' a '' (ExtractError ''no data'')))) = ['' a '']"
    by simp
  show ?thesis by (intro conjI) (rule d, rule i, rule g, rule ks)
qed

subsection \<open>The order of the batch\<close>

lemma loop_called:
  "perform_all_loads_loop h dss reports called w = (result, called', w') \<Longrightarrow>
   (\<exists>n. called' = called @ map get_identifier (take n dss))
   \<and> (\<not> isl result \<longrightarrow> called' = called @ map get_identifier dss)"
proof (induction dss arbitrary: reports called w)
  case Nil
  then show ?case by auto
next
  case (Cons ds dss)
  obtain x w1 where x: "ds_execute ds w = (x, w1)" by (cases "ds_execute ds w")
  let ?called = "called @ [get_identifier ds]"
  have step: "\<And>rs. perform_all_loads_loop h dss rs ?called w1 = (result, called', w') \<Longrightarrow> ?case"
  proof -
    fix rs assume "perform_all_loads_loop h dss rs ?called w1 = (result, called', w')"
    from Cons.IH [OF this] obtain n where
      n: "called' = ?called @ map get_identifier (take n dss)"
      and full: "\<not> isl result \<longrightarrow> called' = ?called @ map get_identifier dss" by blast
    from n have "called' = called @ map get_identifier (take (Suc n) (ds # dss))" by simp
    with full show ?case by (metis append_Cons append_Nil append_assoc list.simps(9))
  qed
  have stop: "result = Inl e \<Longrightarrow> called' = ?called \<Longrightarrow> ?case" for e
  proof -
    assume "result = Inl e" "called' = ?called"
    then have "called' = called @ map get_identifier (take (Suc 0) (ds # dss))" "isl result"
      by simp_all
    then show ?case by blast
  qed
  show ?case
  proof (cases x)
    case (Inr r)
    with x Cons.prems
    have "perform_all_loads_loop h dss (reports @ [r]) ?called w1 = (result, called', w')"
      by simp
    then show ?thesis by (rule step)
  next
    case (Inl e)
    show ?thesis
    proof (cases "is_CDLSError e \<and> \<not> h")
      case True
      with Inl x Cons.prems
      have "perform_all_loads_loop h dss reports ?called w1 = (result, called', w')"
        by simp
      then show ?thesis by (rule step)
    next
      case False
      with Inl x Cons.prems have "result = Inl e" "called' = ?called"
        by (auto split: if_splits)
      then show ?thesis by (rule stop)
    qed
  qed
qed

lemma map_insort_key: "map f (insort_key f x xs) = insort (f x) (map f xs)"
  by (induction xs) auto

lemma map_sort_key: "map f (sort_key f xs) = sort (map f xs)"
  by (induction xs) (auto simp: map_insort_key)

lemma listed_identifiers:
  assumes "list_all (\<lambda>(k, ds). get_identifier ds = k) (datasources st)"
  shows "map fst (list_registered_sources st) = sort (dict_keys (datasources st))"
proof -
  have "list_all (\<lambda>(k, ds). get_identifier ds = k) d \<Longrightarrow>
        map (\<lambda>(k, ds). get_identifier ds) d = map fst d" for d :: "(string \<times> 'a datasource) list"
    by (induction d) auto
  moreover from assms have "list_all (\<lambda>(k, ds). get_identifier ds = k) (sort_key fst (datasources st))"
    by (simp add: list_all_iff)
  ultimately have "map (\<lambda>(k, ds). get_identifier ds) (sort_key fst (datasources st))
      = map fst (sort_key fst (datasources st))" by blast
  moreover have "map fst (list_registered_sources st)
      = map (\<lambda>(k, ds). get_identifier ds) (sort_key fst (datasources st))"
    by (simp add: list_registered_sources_def source_to_tuple_def case_prod_unfold)
  ultimately show ?thesis by (simp add: map_sort_key dict_keys_def)
qed

lemma values_identifiers:
  "list_all (\<lambda>(k, ds). get_identifier ds = k) d \<Longrightarrow>
   map get_identifier (dict_values d) = dict_keys d"
  by (induction d) (auto simp: dict_values_def dict_keys_def)

lemma datasources_registry_b_a:
  "datasources registry_b_a =
     [(''b'', (loading_source ''b'')\<lparr>ds_logger := Some ''cdls.logging'', ds_db := Some ''cdls.db''\<rparr>),
      (''a'', (loading_source ''a'')\<lparr>ds_logger := Some ''cdls.logging'', ds_db := Some ''cdls.db''\<rparr>)]"
  by (simp add: registry_b_a_def register_datasource_def empty_cdls_def
      register_logger_ds_def register_database_ds_def get_identifier_def
      loading_source_def example_source_def)

text \<open>
  C1, as the code has it. The claim says that \<open>perform_all_loads\<close> executes the sources
  in ascending order of their identifiers, the order of \<open>list_registered_sources\<close>. When
  \<open>''b''\<close> is registered before \<open>''a''\<close>, \<open>perform_all_loads\<close> executes \<open>''b''\<close> first,
  while \<open>list_registered_sources\<close> lists \<open>''a''\<close> first.
\<close>

theorem perform_all_loads_not_sorted_counterexample:
  "perform_all_loads False registry_b_a [] =
     (Inr [finished_report ''b'', finished_report ''a''], [''b'', ''a''], [''b'', ''a''])
   \<and> list_registered_sources registry_b_a =
     [(''a'', ''ExampleDataSource'', ''example''), (''b'', ''ExampleDataSource'', ''example'')]"
  by (simp add: perform_all_loads_def list_registered_sources_def datasources_registry_b_a
      dict_values_def source_to_tuple_def get_identifier_def get_type_def get_description_def
      loading_source_def example_source_def)

text \<open>
  C1, amended. \<open>perform_all_loads\<close> executes the registered sources in the order in
  which the registry holds them, which is the order in which their identifiers were
  first registered: the identifiers of the sources called are a prefix of the registry's
  keys, and all of them when it returns. \<open>list_registered_sources\<close> returns the entries
  sorted by identifier, ascending. The two orders are the same when the registry's keys
  are in ascending order. (In a registry built by \<open>register_datasource\<close> every source is
  stored under its own identifier, which is the assumption.)
\<close>

theorem perform_all_loads_registry_order:
  assumes "list_all (\<lambda>(k, ds). get_identifier ds = k) (datasources st)"
    and "perform_all_loads halt_on_error st w = (result, called, w')"
  shows "prefix called (dict_keys (datasources st))
       \<and> (\<not> isl result \<longrightarrow> called = dict_keys (datasources st))
       \<and> map fst (list_registered_sources st) = sort (dict_keys (datasources st))
       \<and> (sorted (dict_keys (datasources st)) \<longrightarrow>
            map fst (list_registered_sources st) = dict_keys (datasources st))"
proof -
  from loop_called [OF assms(2) [unfolded perform_all_loads_def]]
  obtain n where n: "called = map get_identifier (take n (dict_values (datasources st)))"
    and full: "\<not> isl result \<longrightarrow> called = map get_identifier (dict_values (datasources st))"
    by auto
  have "map get_identifier (take n (dict_values (datasources st)))
        = take n (map get_identifier (dict_values (datasources st)))" by (simp add: take_map)
  with n values_identifiers [OF assms(1)] have "called = take n (dict_keys (datasources st))"
    by simp
  then have a: "prefix called (dict_keys (datasources st))" by (simp add: take_is_prefix)
  from full values_identifiers [OF assms(1)]
  have b: "\<not> isl result \<longrightarrow> called = dict_keys (datasources st)" by simp
  have c: "map fst (list_registered_sources st) = sort (dict_keys (datasources st))"
    by (rule listed_identifiers [OF assms(1)])
  then have d: "sorted (dict_keys (datasources st)) \<longrightarrow>
            map fst (list_registered_sources st) = dict_keys (datasources st)"
    by (simp add: sorted_sort_id)
  from a b c d show ?thesis by simp
qed

theorem perform_all_loads_registry_order_witness:
  "list_all (\<lambda>(k, ds). get_identifier ds = k) (datasources registry_a_b_c)
   \<and> perform_all_loads False registry_a_b_c [] =
       (Inr [finished_report ''a'', finished_report ''c''], [''a'', ''b'', ''c''], [''a'', ''b'', ''c''])
   \<and> sorted (dict_keys (datasources registry_a_b_c))
   \<and> prefix [''a'', ''b'', ''c''] (dict_keys (datasources registry_a_b_c))
   \<and> [''a'', ''b'', ''c''] = dict_keys (datasources registry_a_b_c)
   \<and> map fst (list_registered_sources registry_a_b_c) = dict_keys (datasources registry_a_b_c)"
proof -
  have keyed: "list_all (\<lambda>(k, ds). get_identifier ds = k) (datasources registry_a_b_c)"
    unfolding registry_a_b_c_def
    by (intro register_datasource_keeps_keying) (simp add: empty_cdls_def)
  have run: "perform_all_loads False registry_a_b_c [] =
       (Inr [finished_report ''a'', finished_report ''c''], [''a'', ''b'', ''c''], [''a'', ''b'', ''c''])"
    by (simp add: perform_all_loads_def values_registry_a_b_c get_identifier_def
        loading_source_def failing_source_def example_source_def)
  have keys: "dict_keys (datasources registry_a_b_c) = [''a'', ''b'', ''c'']"
    by (simp add: registry_a_b_c_def register_datasource_eq empty_cdls_def dict_keys_def
        get_identifier_def loading_source_def failing_source_def example_source_def)
  have srt: "sorted (dict_keys (datasources registry_a_b_c))"
    by (simp add: keys)
  from perform_all_loads_registry_order [OF keyed run] keyed run srt show ?thesis
    by (simp add: sorted_sort_id)
qed


section \<open>Registration from configuration\<close>

subsection \<open>Resolving the class of a node\<close>

lemma get_qualified_class_ref_type_missing:
  assumes "node ''@QualifiedClassName'' = Some q"
    and "rsplit_dot q = [m, c]"
    and "import_module env m = Inr module_ref"
    and "module_ref c = None"
  shows "get_qualified_class_ref env node =
     Inl (UnboundLocalError ''cannot access local variable 'e' where it is not associated with a value'')"
  using assms by (simp add: get_qualified_class_ref_def)

lemma get_qualified_class_ref_configuration_error:
  "(\<exists>msg. get_qualified_class_ref env node = Inl (SourceConfigurationError msg)) \<longleftrightarrow>
   (node ''@QualifiedClassName'' = None
    \<or> (\<exists>q m c msg. node ''@QualifiedClassName'' = Some q \<and> rsplit_dot q = [m, c]
          \<and> import_module env m = Inl (ImportError msg)))"
proof (cases "node ''@QualifiedClassName''")
  case None
  then show ?thesis by (simp add: get_qualified_class_ref_def)
next
  case (Some q)
  have imp: "import_module env m = Inl e \<Longrightarrow> \<not> is_ImportError e \<Longrightarrow>
             \<not> is_SourceConfigurationError e" for m e
    by (auto simp: import_module_def split: list.splits if_splits option.splits)
  show ?thesis
  proof (cases "\<exists>m c. rsplit_dot q = [m, c]")
    case False
    then have "\<And>m c. rsplit_dot q \<noteq> [m, c]" by blast
    with Some show ?thesis
      by (auto simp: get_qualified_class_ref_def split: list.splits)
  next
    case True
    then obtain m c where mc: "rsplit_dot q = [m, c]" by blast
    show ?thesis
    proof (cases "import_module env m")
      case (Inr module_ref)
      with Some mc show ?thesis
        by (auto simp: get_qualified_class_ref_def split: option.splits)
    next
      case (Inl e)
      show ?thesis
      proof (cases "is_ImportError e")
        case True
        then obtain msg where "e = ImportError msg" by (cases e) auto
        with Some mc Inl show ?thesis by (auto simp: get_qualified_class_ref_def)
      next
        case False
        with imp [OF Inl] have "\<not> is_SourceConfigurationError e" by simp
        with Some mc Inl False show ?thesis
          by (auto simp: get_qualified_class_ref_def)
      qed
    qed
  qed
qed

text \<open>
  C3, at a failing input. The node names \<^verbatim>\<open>cdls.datasources.NoSuchSource\<close>: the module
  is found and has no such attribute. The claim says that the error is a
  \<^verbatim>\<open>SourceConfigurationError\<close>; \<open>get_qualified_class_ref\<close> raises \<^verbatim>\<open>UnboundLocalError\<close>.
\<close>

theorem get_qualified_class_ref_missing_type:
  "get_qualified_class_ref example_modules node_no_such_class =
     Inl (UnboundLocalError ''cannot access local variable 'e' where it is not associated with a value'')"
  by (simp add: get_qualified_class_ref_def node_no_such_class_def rsplit_dot_def
      import_module_def example_modules_def)

subsection \<open>Registering all nodes\<close>

lemma get_config_param_required:
  "get_config_param config key True d = Inr v \<Longrightarrow> \<exists>s. v = Some s \<and> s \<noteq> []"
  by (auto simp: get_config_param_def Let_def split: if_splits option.splits)

lemma get_config_param_error:
  "get_config_param config key required d = Inl e \<Longrightarrow> is_SourceConfigurationError e"
  by (auto simp: get_config_param_def Let_def split: if_splits)

lemma BaseDataSource_init_error:
  "BaseDataSource_init type_name execute config = Inl e \<Longrightarrow> is_SourceConfigurationError e"
  by (auto simp: BaseDataSource_init_def split: sum.splits option.splits
      dest: get_config_param_error)

lemma register_all_append:
  "fst (register_all_datasources env st pre) = None \<Longrightarrow>
   register_all_datasources env st (pre @ rest) =
   register_all_datasources env (snd (register_all_datasources env st pre)) rest"
proof (induction pre arbitrary: st)
  case Nil
  then show ?case by simp
next
  case (Cons node pre)
  then show ?case
    by (auto split: sum.splits attribute.splits)
qed

lemma register_all_single:
  "fst (register_all_datasources env st [node]) = Some e \<Longrightarrow>
   register_all_datasources env st (node # rest) = (Some e, st)"
  by (auto split: sum.splits attribute.splits)

lemma registered_node_a:
  "fst (register_all_datasources example_modules empty_cdls [node_a]) = None"
  "dict_keys (datasources (snd (register_all_datasources example_modules empty_cdls [node_a]))) = [''a'']"
  by (simp_all add: get_qualified_class_ref_def node_a_def rsplit_dot_def
      import_module_def example_modules_def BaseDataSource_def BaseDataSource_init_def
      get_config_param_def register_datasource_eq empty_cdls_def dict_keys_def get_identifier_def
      injected_def)

text \<open>
  C4, as the code has it. The claim says that a node whose resolved type does not
  satisfy the data source contract fails with a \<^verbatim>\<open>SourceConfigurationError\<close>. The second
  node names the class \<^verbatim>\<open>LoadReport\<close>: the \<^verbatim>\<open>assert\<close> fails, and the error is an
  \<^verbatim>\<open>AssertionError\<close>. The first node stays registered.
\<close>

theorem register_all_assertion_counterexample:
  "fst (register_all_datasources example_modules empty_cdls [node_a, node_load_report]) =
     Some AssertionError
   \<and> \<not> is_SourceConfigurationError AssertionError
   \<and> dict_keys (datasources (snd (register_all_datasources example_modules empty_cdls
        [node_a, node_load_report]))) = [''a'']"
  by (simp add: get_qualified_class_ref_def node_a_def node_load_report_def rsplit_dot_def
      import_module_def example_modules_def BaseDataSource_def BaseDataSource_init_def
      get_config_param_def register_datasource_eq empty_cdls_def dict_keys_def get_identifier_def
      injected_def)

text \<open>
  C4, amended. \<open>register_all_datasources\<close> stops at the first node that fails, with the
  exception that node raises, and the registry is the one left by the nodes before it
  (no rollback); no later node is looked at. The exception is a
  \<^verbatim>\<open>SourceConfigurationError\<close> when the node has no \<^verbatim>\<open>@QualifiedClassName\<close>, when the
  module it names cannot be imported, and when the constructor of \<^verbatim>\<open>BaseDataSource\<close>
  rejects the node (a required parameter is missing or empty); it is an
  \<^verbatim>\<open>AssertionError\<close> when the class it names is not a data source class.
\<close>

theorem register_all_fails_fast:
  assumes "fst (register_all_datasources env st pre) = None"
    and "fst (register_all_datasources env (snd (register_all_datasources env st pre)) [bad]) = Some e"
  shows "register_all_datasources env st (pre @ bad # rest) =
           (Some e, snd (register_all_datasources env st pre))
       \<and> (bad ''@QualifiedClassName'' = None \<longrightarrow> is_SourceConfigurationError e)
       \<and> (bad ''@QualifiedClassName'' = Some q \<and> rsplit_dot q = [m, c]
            \<and> import_module env m = Inl (ImportError msg) \<longrightarrow> e = SourceConfigurationError msg)
       \<and> (get_qualified_class_ref env bad = Inr OtherClass \<longrightarrow> e = AssertionError)
       \<and> (get_qualified_class_ref env bad = Inr (DataSourceClass (BaseDataSource_init t x))
            \<longrightarrow> is_SourceConfigurationError e)"
proof -
  let ?st1 = "snd (register_all_datasources env st pre)"
  have a: "register_all_datasources env st (pre @ bad # rest) = (Some e, ?st1)"
    using register_all_append [OF assms(1)] register_all_single [OF assms(2)] by simp
  have b: "bad ''@QualifiedClassName'' = None \<longrightarrow> is_SourceConfigurationError e"
    using assms(2) by (auto simp: get_qualified_class_ref_def)
  have c: "bad ''@QualifiedClassName'' = Some q \<and> rsplit_dot q = [m, c]
            \<and> import_module env m = Inl (ImportError msg) \<longrightarrow> e = SourceConfigurationError msg"
    using assms(2) by (auto simp: get_qualified_class_ref_def)
  have d: "get_qualified_class_ref env bad = Inr OtherClass \<longrightarrow> e = AssertionError"
    using assms(2) by auto
  have e: "get_qualified_class_ref env bad = Inr (DataSourceClass (BaseDataSource_init t x))
            \<longrightarrow> is_SourceConfigurationError e"
    using assms(2) by (auto split: sum.splits dest: BaseDataSource_init_error)
  from a b c d e show ?thesis by simp
qed

theorem register_all_fails_fast_witness:
  "fst (register_all_datasources example_modules empty_cdls [node_a]) = None
   \<and> dict_keys (datasources (snd (register_all_datasources example_modules empty_cdls [node_a]))) = [''a'']
   \<and> register_all_datasources example_modules empty_cdls ([node_a] @ node_unqualified # [node_c]) =
        (Some (SourceConfigurationError ''@QualifiedClassName property is missing''),
         snd (register_all_datasources example_modules empty_cdls [node_a]))
   \<and> register_all_datasources example_modules empty_cdls ([node_a] @ node_no_such_module # [node_c]) =
        (Some (SourceConfigurationError (''No module named '' @ quoted ''nowhere'')),
         snd (register_all_datasources example_modules empty_cdls [node_a]))
   \<and> register_all_datasources example_modules empty_cdls ([node_a] @ node_load_report # [node_c]) =
        (Some AssertionError,
         snd (register_all_datasources example_modules empty_cdls [node_a]))
   \<and> register_all_datasources example_modules empty_cdls ([node_a] @ node_no_id # [node_c]) =
        (Some (SourceConfigurationError ''Required config parameter 'id' is missing''),
         snd (register_all_datasources example_modules empty_cdls [node_a]))"
proof -
  let ?st1 = "snd (register_all_datasources example_modules empty_cdls [node_a])"
  note pre = registered_node_a(1)
  have b1: "fst (register_all_datasources example_modules ?st1 [node_unqualified]) =
      Some (SourceConfigurationError ''@QualifiedClassName property is missing'')"
    by (simp add: get_qualified_class_ref_def node_unqualified_def)
  have b2: "fst (register_all_datasources example_modules ?st1 [node_no_such_module]) =
      Some (SourceConfigurationError (''No module named '' @ quoted ''nowhere''))"
    by (simp add: get_qualified_class_ref_def node_no_such_module_def rsplit_dot_def
        import_module_def example_modules_def)
  have b3: "fst (register_all_datasources example_modules ?st1 [node_load_report]) =
      Some AssertionError"
    by (simp add: get_qualified_class_ref_def node_load_report_def rsplit_dot_def
        import_module_def example_modules_def)
  have b4: "fst (register_all_datasources example_modules ?st1 [node_no_id]) =
      Some (SourceConfigurationError ''Required config parameter 'id' is missing'')"
    by (simp add: get_qualified_class_ref_def node_no_id_def rsplit_dot_def
        import_module_def example_modules_def BaseDataSource_def BaseDataSource_init_def
        get_config_param_def quoted_def)
  note t1 = register_all_fails_fast [OF pre b1, THEN conjunct1]
  note t2 = register_all_fails_fast [OF pre b2, THEN conjunct1]
  note t3 = register_all_fails_fast [OF pre b3, THEN conjunct1]
  note t4 = register_all_fails_fast [OF pre b4, THEN conjunct1]
  show ?thesis
    by (intro conjI) (rule registered_node_a(1), rule registered_node_a(2), rule t1, rule t2, rule t3, rule t4)
qed


section \<open>The latest record date\<close>

lemma string_to_date_aware:
  "string_to_date lib s = Inr d \<Longrightarrow> \<exists>t. d = Aware t"
proof -
  have "string_to_date_loop lib x m = Inr d \<Longrightarrow> \<exists>t. d = Aware t" for x m
    by (induction m) (auto split: if_splits sum.splits)
  then show "string_to_date lib s = Inr d \<Longrightarrow> \<exists>t. d = Aware t"
    by (auto simp: string_to_date_def Let_def)
qed

lemma update_string_never_succeeds:
  assumes "latest_record (ds_report self) = Naive p"
  shows "update_latest_record_date lib self (DateString s) \<noteq> Inr self'"
proof (cases "string_to_date lib s")
  case (Inl e)
  then show ?thesis by (simp add: update_latest_record_date_def)
next
  case (Inr d)
  with string_to_date_aware obtain t where "d = Aware t" by blast
  with Inr assms show ?thesis by (simp add: update_latest_record_date_def py_max_def)
qed

text \<open>
  C9, at a failing input. A source fresh from its constructor is given the date
  \<^verbatim>\<open>"1999-07-04T11:00:00"\<close>, a string, which the docstring admits. \<open>string_to_date\<close>
  turns it into an aware datetime; \<^verbatim>\<open>max\<close> then compares it with the report's
  \<^verbatim>\<open>datetime.min\<close>, which is naive, and raises \<^verbatim>\<open>TypeError\<close>. The claim says that
  \<open>latest_record\<close> becomes the date supplied.
\<close>

theorem update_latest_record_date_string:
  "string_to_date example_time_library ''1999-07-04T11:00:00'' = Inr (Aware 63066697200000000)
   \<and> update_latest_record_date example_time_library (loading_source ''a'')
        (DateString ''1999-07-04T11:00:00'') =
      Inl (TypeError ''can't compare offset-naive and offset-aware datetimes'')"
  by (simp add: update_latest_record_date_def string_to_date_def strip_def is_space_def
      mapping_def iso_timestamp_def is_digit_def is_word_def example_time_library_def
      py_max_def loading_source_def example_source_def LoadReport_init_def datetime_min_def)

text \<open>
  What does hold: on naive datetimes, each update leaves the later of the two dates, and
  after any sequence of them \<open>latest_record\<close> is the greatest of the dates supplied and
  the date it started from.
\<close>

lemma update_naive:
  assumes "latest_record (ds_report self) = Naive p"
  shows "update_latest_record_date lib self (DateObject (Naive t)) =
     Inr (self\<lparr>ds_report := (ds_report self)\<lparr>latest_record := Naive (max t p)\<rparr>\<rparr>)"
  using assms by (auto simp: update_latest_record_date_def py_max_def max_def)

lemma update_all_naive:
  assumes "latest_record (ds_report self) = Naive p"
  shows "\<exists>self'. update_all lib self (map (\<lambda>t. DateObject (Naive t)) ts) = Inr self'
     \<and> latest_record (ds_report self') = Naive (Max (insert p (set ts)))"
  using assms
proof (induction ts arbitrary: self p)
  case Nil
  then show ?case by simp
next
  case (Cons t ts)
  let ?self1 = "self\<lparr>ds_report := (ds_report self)\<lparr>latest_record := Naive (max t p)\<rparr>\<rparr>"
  have l: "latest_record (ds_report ?self1) = Naive (max t p)" by simp
  from Cons.IH [OF l] obtain self' where
    s: "update_all lib ?self1 (map (\<lambda>t. DateObject (Naive t)) ts) = Inr self'"
    and m: "latest_record (ds_report self') = Naive (Max (insert (max t p) (set ts)))" by blast
  have "Max (insert (max t p) (set ts)) = Max (insert p (set (t # ts)))"
  proof -
    have "insert p (set (t # ts)) = insert t (insert p (set ts))" by auto
    then have "Max (insert p (set (t # ts))) = max t (Max (insert p (set ts)))" by simp
    also have "\<dots> = Max (insert (max t p) (set ts))"
      by (cases "set ts = {}") (auto simp: max.assoc)
    finally show ?thesis by simp
  qed
  with s m update_naive [OF Cons.prems, of lib t] show ?case by simp
qed


section \<open>The warehouse store\<close>

subsection \<open>Serialization\<close>

lemma dumps_default:
  "dumps strftime (PyDatetime d) =
     (case tojson strftime (PyDatetime d) of Inl e \<Rightarrow> Inl e | Inr v \<Rightarrow> dumps strftime v)"
  "dumps strftime (PyObject cls attrs) =
     (case tojson strftime (PyObject cls attrs) of Inl e \<Rightarrow> Inl e | Inr v \<Rightarrow> dumps strftime v)"
  "dumps strftime (PyOpaque cls) =
     (case tojson strftime (PyOpaque cls) of Inl e \<Rightarrow> Inl e | Inr v \<Rightarrow> dumps strftime v)"
  by (simp_all add: list_all_iff case_prod_unfold comp_def)

lemma dumps_good_data:
  "dumps strftime good_data =
     Inr (JObject [(''created_on'', JString (strftime (Naive 63113904000000000))),
                   (''id'', JNumber 0), (''title'', JString ''lorem ipsum'')])"
  by (simp add: good_data_def date_to_string_def)

lemma dumps_fake_data:
  "dumps strftime fake_data =
     Inl (AttributeError (quoted ''bytes'' @ '' object has no attribute '' @ quoted ''__dict__''))"
  by (simp add: fake_data_def)

lemma warehouse_serialization_failure:
  "dumps strftime (PyDict [(KeyStr ''$class'', PyStr (type_name_of data)), (KeyStr ''$contents'', data)]) = Inl e
   \<Longrightarrow> warehouse connection strftime uuid1 data source record_date c =
       (if is_TypeError e then Some (DatabaseError ''JSON-serialization failed on data'') else Some e, c)"
  by (simp add: warehouse_def Let_def)

lemma warehouse_bad_key:
  "warehouse connection strftime uuid1 (PyDict [(KeyOther, PyInt 1)]) source record_date c =
     (Some (DatabaseError ''JSON-serialization failed on data''), c)"
  by (simp add: warehouse_def Let_def)

text \<open>
  C7, at a failing input. The record has an attribute that holds \<^verbatim>\<open>bytes\<close>, a value that
  is not a primitive, not a date, and has no \<^verbatim>\<open>__dict__\<close>. The claim says that
  \<open>warehouse\<close> raises \<^verbatim>\<open>DatabaseError\<close>; the hook raises \<^verbatim>\<open>AttributeError\<close>, which the
  handler of \<^verbatim>\<open>TypeError\<close> does not catch. No row is written: the state of the
  connection is unchanged.
\<close>

theorem warehouse_unserializable:
  "warehouse connection strftime uuid1 fake_data source record_date c =
     (Some (AttributeError (quoted ''bytes'' @ '' object has no attribute '' @ quoted ''__dict__'')), c)
   \<and> \<not> is_DatabaseError
         (AttributeError (quoted ''bytes'' @ '' object has no attribute '' @ quoted ''__dict__''))"
  by (simp add: warehouse_def Let_def dumps_fake_data)

subsection \<open>Installing the schema\<close>

lemma install_unlocked:
  "locks d = [] \<Longrightarrow>
   install sqlite3_execute d = (None, d\<lparr>loadstats_table := True, warehouse_table := Some []\<rparr>)"
  by (cases "warehouse_table d")
     (auto simp: install_def try_drop_def execute_query_def sqlite3_execute_def sqlite3_statement_def)

lemma install_create_loadstats_raw:
  "install sqlite3_execute (new_database\<lparr>locks := [True, True]\<rparr>) =
     (Some (sqlite3_OperationalError ''database is locked''), new_database)"
  by (simp add: install_def try_drop_def execute_query_def sqlite3_execute_def
      sqlite3_statement_def new_database_def)

text \<open>
  C6, as the code has it. The claim says that a schema failure other than a drop of a
  table that does not exist is raised as a \<^verbatim>\<open>DatabaseError\<close>. Here the first drop fails
  because the database is locked; \<open>install\<close> swallows the failure, goes on, and returns
  normally.
\<close>

theorem install_drop_failure_counterexample:
  "sqlite3_execute DDL_DROP_LOADSTATS (new_database\<lparr>locks := [True]\<rparr>) =
     (Some (sqlite3_OperationalError ''database is locked''), new_database)
   \<and> install sqlite3_execute (new_database\<lparr>locks := [True]\<rparr>) =
     (None, \<lparr>loadstats_table = True, warehouse_table = Some [], locks = []\<rparr>)"
  by (simp add: install_def try_drop_def execute_query_def sqlite3_execute_def
      sqlite3_statement_def new_database_def)

text \<open>
  C6, amended. An \<^verbatim>\<open>sqlite3.OperationalError\<close> raised by either drop, whatever its
  cause, is swallowed, and \<open>install\<close> goes on; once the table of load statistics is
  created, an \<^verbatim>\<open>sqlite3.OperationalError\<close> raised on creating the warehouse table is
  raised as a \<^verbatim>\<open>DatabaseError\<close>, and \<open>install\<close> succeeds when that statement does. On
  a database that nobody holds locked \<open>install\<close> succeeds whether the tables exist or
  not, so that calling it twice in succession succeeds both times.
\<close>

theorem install_swallows_drop_failures:
  assumes "connection DDL_DROP_LOADSTATS c = (r1, c1)"
    and "connection DDL_CREATE_LOADSTATS c1 = (None, c2)"
    and "connection DDL_DROP_WAREHOUSE c2 = (r3, c3)"
    and "connection DDL_CREATE_WAREHOUSE c3 = (r4, c4)"
    and "list_all operational_or_none [r1, r3, r4]"
  shows "install connection c =
           (map_option (\<lambda>e. DatabaseError (''sqlite3: '' @ str_exn e)) r4, c4)
       \<and> (locks d = [] \<longrightarrow>
            fst (install sqlite3_execute d) = None
            \<and> fst (install sqlite3_execute (snd (install sqlite3_execute d))) = None)"
proof -
  from assms(5) have o1: "operational_or_none r1" and o3: "operational_or_none r3"
    and o4: "operational_or_none r4" by simp_all
  from assms(1) o1 have d1: "try_drop connection DDL_DROP_LOADSTATS c = (None, c1)"
    by (cases r1) (simp_all add: try_drop_def)
  from assms(3) o3 have d3: "try_drop connection DDL_DROP_WAREHOUSE c2 = (None, c3)"
    by (cases r3) (simp_all add: try_drop_def)
  from assms(4) o4 have c4: "execute_query connection DDL_CREATE_WAREHOUSE c3 =
      (map_option (\<lambda>e. DatabaseError (''sqlite3: '' @ str_exn e)) r4, c4)"
    by (cases r4) (simp_all add: execute_query_def)
  from d1 assms(2) d3 c4 have a: "install connection c =
           (map_option (\<lambda>e. DatabaseError (''sqlite3: '' @ str_exn e)) r4, c4)"
    by (simp add: install_def)
  have b: "locks d = [] \<longrightarrow>
            fst (install sqlite3_execute d) = None
            \<and> fst (install sqlite3_execute (snd (install sqlite3_execute d))) = None"
    by (simp add: install_unlocked)
  from a b show ?thesis by simp
qed

theorem install_swallows_drop_failures_witness:
  "list_all operational_or_none
     [None, Some (sqlite3_OperationalError ''database is locked''),
      Some (sqlite3_OperationalError ''database is locked'')]
   \<and> install sqlite3_execute installed_then_locked =
       (Some (DatabaseError ''sqlite3: database is locked''),
        \<lparr>loadstats_table = True, warehouse_table = Some [], locks = []\<rparr>)
   \<and> locks new_database = []
   \<and> fst (install sqlite3_execute new_database) = None
   \<and> fst (install sqlite3_execute (snd (install sqlite3_execute new_database))) = None"
proof -
  let ?d1 = "\<lparr>loadstats_table = False, warehouse_table = Some [], locks = [False, True, True]\<rparr>"
  let ?d2 = "\<lparr>loadstats_table = True, warehouse_table = Some [], locks = [True, True]\<rparr>"
  let ?d3 = "\<lparr>loadstats_table = True, warehouse_table = Some [], locks = [True]\<rparr>"
  let ?d4 = "\<lparr>loadstats_table = True, warehouse_table = Some [], locks = []\<rparr>"
  have s1: "sqlite3_execute DDL_DROP_LOADSTATS installed_then_locked = (None, ?d1)"
    by (simp add: sqlite3_execute_def sqlite3_statement_def installed_then_locked_def)
  have s2: "sqlite3_execute DDL_CREATE_LOADSTATS ?d1 = (None, ?d2)"
    by (simp add: sqlite3_execute_def sqlite3_statement_def)
  have s3: "sqlite3_execute DDL_DROP_WAREHOUSE ?d2 =
      (Some (sqlite3_OperationalError ''database is locked''), ?d3)"
    by (simp add: sqlite3_execute_def sqlite3_statement_def)
  have s4: "sqlite3_execute DDL_CREATE_WAREHOUSE ?d3 =
      (Some (sqlite3_OperationalError ''database is locked''), ?d4)"
    by (simp add: sqlite3_execute_def sqlite3_statement_def)
  have ok: "list_all operational_or_none
     [None, Some (sqlite3_OperationalError ''database is locked''),
      Some (sqlite3_OperationalError ''database is locked'')]" by simp
  have l: "locks new_database = []" by (simp add: new_database_def)
  from install_swallows_drop_failures [OF s1 s2 s3 s4 ok, of new_database] ok l
  show ?thesis by simp
qed

end
